theory Spec2Isabelle
  imports Main "HOL-Library.AList"
begin

section \<open>Python values the Kafka source works with\<close>

text \<open>
  An instance of Python's \<open>Exception\<close>: its class name and the text \<open>str(e)\<close> that an
  f-string prints for it. Every raise of the source and of its collaborators is a value of
  this type on the left of a sum.
\<close>

datatype exn = Exn (exn_class: string) (exn_str: string)

text \<open>\<open>str(n)\<close> of a Python int, in decimal.\<close>

definition digit_char :: "nat \<Rightarrow> char" where
  "digit_char d = char_of (48 + d)"

fun str_nat :: "nat \<Rightarrow> string" where
  "str_nat n = (if n < 10 then [digit_char n] else str_nat (n div 10) @ [digit_char (n mod 10)])"

declare str_nat.simps [simp del]

definition str_int :: "int \<Rightarrow> string" where
  "str_int i = (if i < 0 then CHR ''-'' # str_nat (nat (- i)) else str_nat (nat i))"

section \<open>Pattern filter\<close>

text \<open>
  Modelled from the spec: the regex matching that \<open>AllowDenyPattern\<close> uses. The class
  lives in \<open>gometa.configuration.common\<close>, which is not among the source files; the
  spec says that matching is full-string regex match. The patterns are strings, as in
  \<open>AllowDenyPattern(allow=[".*"], deny=["^_.*"])\<close>. The regex fragment read here is: an
  ordinary character, \<open>.\<close> (any character but a newline, as in Python), a postfix
  \<open>*\<close> on either, and a leading \<open>^\<close> (which a full-string match makes redundant).
\<close>

datatype atom = Lit char | Dot

datatype piece = One atom | Star atom

definition atom_of :: "char \<Rightarrow> atom" where
  "atom_of c = (if c = CHR ''.'' then Dot else Lit c)"

fun parse_pieces :: "string \<Rightarrow> piece list" where
  "parse_pieces [] = []"
| "parse_pieces [c] = [One (atom_of c)]"
| "parse_pieces (c # d # rest) =
     (if d = CHR ''*'' then Star (atom_of c) # parse_pieces rest
      else One (atom_of c) # parse_pieces (d # rest))"

definition drop_caret :: "string \<Rightarrow> string" where
  "drop_caret p = (case p of [] \<Rightarrow> [] | c # rest \<Rightarrow> if c = CHR ''^'' then rest else p)"

fun atom_ok :: "atom \<Rightarrow> char \<Rightarrow> bool" where
  "atom_ok (Lit a) c = (a = c)"
| "atom_ok Dot c = (c \<noteq> CHR 0x0A)"

fun fullmatch :: "piece list \<Rightarrow> string \<Rightarrow> bool" where
  "fullmatch [] s = (s = [])"
| "fullmatch (One a # ps) [] = False"
| "fullmatch (One a # ps) (c # cs) = (atom_ok a c \<and> fullmatch ps cs)"
| "fullmatch (Star a # ps) [] = fullmatch ps []"
| "fullmatch (Star a # ps) (c # cs) =
     (fullmatch ps (c # cs) \<or> (atom_ok a c \<and> fullmatch (Star a # ps) cs))"

definition re_fullmatch :: "string \<Rightarrow> string \<Rightarrow> bool" where
  "re_fullmatch p s = fullmatch (parse_pieces (drop_caret p)) s"

record allow_deny_pattern =
  allow :: "string list"
  deny :: "string list"

text \<open>
  Modelled from the spec: the method \<open>allowed\<close> of \<open>AllowDenyPattern\<close>, which is not
  among the source files. The spec gives the algorithm: reject if the resource matches any
  deny pattern; else accept if it matches any allow pattern; else reject.
\<close>

definition allowed :: "allow_deny_pattern \<Rightarrow> string \<Rightarrow> bool" where
  "allowed pat s =
     (if list_ex (\<lambda>p. re_fullmatch p s) (deny pat) then False
      else list_ex (\<lambda>p. re_fullmatch p s) (allow pat))"

section \<open>Configuration\<close>

text \<open>
  \<open>KafkaConsumerConnectionConfig\<close> is declared outside the source files; the source
  reads its attributes \<open>bootstrap\<close>, \<open>consumer_config\<close> and \<open>schema_registry_url\<close>.
\<close>

record kafka_consumer_connection_config =
  bootstrap :: string
  consumer_config :: "(string \<times> string) list"
  schema_registry_url :: string

record kafka_source_config =
  connection :: kafka_consumer_connection_config
  topic_patterns :: allow_deny_pattern

text \<open>The default of the field \<open>topic_patterns\<close> of \<open>KafkaSourceConfig\<close>.\<close>

definition default_topic_patterns :: allow_deny_pattern where
  "default_topic_patterns = \<lparr>allow = [''.*''], deny = [''^_.*'']\<rparr>"

section \<open>Metadata records\<close>

record audit_stamp =
  time :: int
  actor :: string

record kafka_schema =
  documentSchema :: string

text \<open>
  Modelled from the spec: \<open>SchemaField\<close> is declared outside the source files; the spec
  describes it as the normalized field with a path, a type, a nullable flag, a native type
  name and an optional description. The source only passes lists of them on.
\<close>

record schema_field =
  fieldPath :: string
  field_type :: string
  nullable :: bool
  nativeDataType :: string
  description :: "string option"

record schema_metadata =
  schemaName :: string
  version :: int
  hash :: string
  platform :: string
  platformSchema :: kafka_schema
  fields' :: "schema_field list"
  created :: audit_stamp
  lastModified :: audit_stamp

datatype aspect = Status (removed: bool) | SchemaMetadata schema_metadata

record dataset_snapshot =
  urn :: string
  aspects :: "aspect list"

record metadata_change_event =
  proposedSnapshot :: dataset_snapshot

record metadata_workunit =
  id' :: string
  mce :: metadata_change_event

section \<open>The report\<close>

text \<open>
  A Python dict keeps its keys in insertion order; it is an association list here, read
  with \<open>map_of\<close> and written with \<open>AList.update\<close>, which replaces the value of a key
  that is present and appends a key that is not. The field \<open>workunits_produced\<close> is the
  one the report inherits from its base class \<open>SourceReport\<close>.
\<close>

record kafka_source_report =
  workunits_produced :: int
  topics_scanned :: int
  warnings :: "(string \<times> string list) list"
  failures :: "(string \<times> string list) list"
  filtered :: "string list"

definition KafkaSourceReport :: kafka_source_report where
  "KafkaSourceReport =
     \<lparr>workunits_produced = 0, topics_scanned = 0, warnings = [], failures = [], filtered = []\<rparr>"

text \<open>
  Modelled from the spec: the method \<open>report_workunit\<close> of the base class
  \<open>SourceReport\<close>, which is not among the source files. The spec lists a count of the
  work units produced in the report; \<open>report_workunit\<close> increments it.
\<close>

definition report_workunit :: "metadata_workunit \<Rightarrow> kafka_source_report \<Rightarrow> kafka_source_report" where
  "report_workunit wu r = r\<lparr>workunits_produced := workunits_produced r + 1\<rparr>"

definition report_topic_scanned :: "string \<Rightarrow> kafka_source_report \<Rightarrow> kafka_source_report" where
  "report_topic_scanned topic r = r\<lparr>topics_scanned := topics_scanned r + 1\<rparr>"

text \<open>
  \<open>if topic not in d: d[topic] = []\<close> followed by \<open>d[topic].append(reason)\<close>.
\<close>

definition append_reason :: "string \<Rightarrow> string \<Rightarrow> (string \<times> string list) list \<Rightarrow> (string \<times> string list) list" where
  "append_reason topic reason d =
     (case map_of d topic of
        None \<Rightarrow> AList.update topic [reason] d
      | Some rs \<Rightarrow> AList.update topic (rs @ [reason]) d)"

definition report_warning :: "string \<Rightarrow> string \<Rightarrow> kafka_source_report \<Rightarrow> kafka_source_report" where
  "report_warning topic reason r = r\<lparr>warnings := append_reason topic reason (warnings r)\<rparr>"

definition report_failure :: "string \<Rightarrow> string \<Rightarrow> kafka_source_report \<Rightarrow> kafka_source_report" where
  "report_failure topic reason r = r\<lparr>failures := append_reason topic reason (failures r)\<rparr>"

definition report_dropped :: "string \<Rightarrow> kafka_source_report \<Rightarrow> kafka_source_report" where
  "report_dropped topic r = r\<lparr>filtered := filtered r @ [topic]\<rparr>"

section \<open>The platform clients\<close>

text \<open>
  The schema object of the registry client: the source reads \<open>schema_type\<close>,
  \<open>schema_str\<close> and \<open>_hash\<close> (a Python int) of it.
\<close>

record schema =
  schema_str :: string
  schema_type :: string
  hash' :: int

record registered_schema =
  schema :: schema

text \<open>
  The collaborators of the source are outside the repository's code (the
  \<open>confluent_kafka\<close> consumer and schema registry client, the clock) or outside the source
  files (\<open>schema_util.avro_schema_to_mce_fields\<close>), so they are parameters. \<open>'c\<close> is
  the state of the consumer object, which \<open>close\<close> changes in place. Each call either
  raises or returns:
  \<^item> \<open>new_consumer\<close> and \<open>new_schema_registry_client\<close> are the two constructors
    that \<open>__init__\<close> calls;
  \<^item> \<open>list_topics c\<close> is the key list of \<open>consumer.list_topics().topics\<close>, a dict,
    in iteration order (so without duplicates), for a consumer in state \<open>c\<close>;
  \<^item> \<open>consumer_close c\<close> is \<open>consumer.close()\<close>, giving the consumer's new state;
  \<^item> \<open>get_latest_version subject\<close> is the registry lookup;
  \<^item> \<open>avro_schema_to_mce_fields s\<close> is the Avro normalizer on the schema string;
  \<^item> \<open>time_time topic\<close> is \<open>int(time.time())\<close> at the moment the record for
    \<open>topic\<close> is extracted.
\<close>

record 'c platform =
  new_consumer :: "kafka_source_config \<Rightarrow> exn + 'c"
  new_schema_registry_client :: "kafka_source_config \<Rightarrow> exn + unit"
  list_topics :: "'c \<Rightarrow> exn + string list"
  consumer_close :: "'c \<Rightarrow> exn + 'c"
  get_latest_version :: "string \<Rightarrow> exn + registered_schema"
  avro_schema_to_mce_fields :: "string \<Rightarrow> exn + schema_field list"
  time_time :: "string \<Rightarrow> int"

section \<open>The Kafka source\<close>

text \<open>
  The attributes of a \<open>KafkaSource\<close>. \<open>consumer = None\<close> is Python's \<open>None\<close>, the
  falsy value that the guard of \<open>close\<close> tests for.
\<close>

record 'c kafka_source =
  source_config :: kafka_source_config
  consumer :: "'c option"
  report :: kafka_source_report

text \<open>
  \<open>__init__\<close>: the consumer is constructed first, then the schema registry client, then
  the report. A constructor that raises ends \<open>__init__\<close> with that exception, and no
  source object is returned.
\<close>

definition init :: "'c platform \<Rightarrow> kafka_source_config \<Rightarrow> exn + 'c kafka_source" where
  "init P config =
     (case new_consumer P config of
        Inl e \<Rightarrow> Inl e
      | Inr c \<Rightarrow>
          (case new_schema_registry_client P config of
             Inl e \<Rightarrow> Inl e
           | Inr _ \<Rightarrow> Inr \<lparr>source_config = config, consumer = Some c, report = KafkaSourceReport\<rparr>))"

text \<open>
  \<open>_extract_record\<close>. The snapshot is created with the status aspect and assigned to the
  record, which keeps a reference to it: the schema aspect appended afterwards is an aspect
  of the record's snapshot. An exception of the registry lookup is caught and reported as a
  warning; the call of the normalizer is outside the \<open>try\<close>, so its exception leaves
  \<open>_extract_record\<close>.
\<close>

definition extract_record :: "'c platform \<Rightarrow> string \<Rightarrow> kafka_source_report \<Rightarrow> (exn + metadata_change_event) \<times> kafka_source_report" where
  "extract_record P topic r =
     (let platform_name = ''kafka'';
          dataset_name = topic;
          env = ''PROD'';
          actor_urn = ''urn:li:corpuser:etl'';
          sys_time = time_time P topic * 1000;
          snapshot_urn = ''urn:li:dataset:(urn:li:dataPlatform:'' @ platform_name @ '','' @ dataset_name @ '','' @ env @ '')'';
          status = Status False;
          stamp = \<lparr>time = sys_time, actor = actor_urn\<rparr>;
          schema_aspect = (\<lambda>s fs. SchemaMetadata
             \<lparr>schemaName = topic, version = 0, hash = str_int (hash' s),
              platform = ''urn:li:dataPlatform:'' @ platform_name,
              platformSchema = \<lparr>documentSchema = schema_str s\<rparr>,
              fields' = fs, created = stamp, lastModified = stamp\<rparr>);
          record_of = (\<lambda>as. \<lparr>proposedSnapshot = \<lparr>urn = snapshot_urn, aspects = as\<rparr>\<rparr>)
      in case get_latest_version P (topic @ ''-value'') of
           Inl e \<Rightarrow>
             (Inr (record_of [status]),
              report_warning topic (''failed to get schema: '' @ exn_str e) r)
         | Inr registered \<Rightarrow>
             (let s = schema registered in
              if schema_type s = ''AVRO'' then
                (case avro_schema_to_mce_fields P (schema_str s) of
                   Inl e \<Rightarrow> (Inl e, r)
                 | Inr fs \<Rightarrow> (Inr (record_of [status, schema_aspect s fs]), r))
              else
                (Inr (record_of [status, schema_aspect s []]),
                 report_warning topic (''unable to parse kafka schema type '' @ schema_type s) r)))"

text \<open>
  A run of the generator \<open>get_workunits\<close>, pulled until it ends: the work units it
  yielded, in order, the report as it stands then, and how the run ended (the topics were
  exhausted, or an exception left the generator).
\<close>

datatype outcome = Exhausted | Raised exn

record run =
  yielded :: "metadata_workunit list"
  report_after :: kafka_source_report
  outcome :: outcome

text \<open>
  One pass through the body of the \<open>for\<close> loop of \<open>get_workunits\<close>, for the topic
  \<open>t\<close>: the topic is dropped, or a work unit is yielded, or an exception leaves the body.
  The report is the one the body leaves behind in each case.
\<close>

datatype step = Dropped | Yield metadata_workunit | Throw exn

definition visit :: "'c platform \<Rightarrow> kafka_source_config \<Rightarrow> string \<Rightarrow> kafka_source_report \<Rightarrow> step \<times> kafka_source_report" where
  "visit P cfg t r =
     (let r1 = report_topic_scanned t r in
      if allowed (topic_patterns cfg) t then
        (case extract_record P t r1 of
           (Inl e, r2) \<Rightarrow> (Throw e, r2)
         | (Inr m, r2) \<Rightarrow>
             (let wu = \<lparr>id' = ''kafka-'' @ t, mce = m\<rparr>
              in (Yield wu, report_workunit wu r2)))
      else (Dropped, report_dropped t r1))"

text \<open>The \<open>for\<close> loop of \<open>get_workunits\<close> over the topics still to visit.\<close>

fun for_topics :: "'c platform \<Rightarrow> kafka_source_config \<Rightarrow> string list \<Rightarrow> kafka_source_report \<Rightarrow> run" where
  "for_topics P cfg [] r = \<lparr>yielded = [], report_after = r, outcome = Exhausted\<rparr>"
| "for_topics P cfg (t # ts) r =
     (case visit P cfg t r of
        (Throw e, r') \<Rightarrow> \<lparr>yielded = [], report_after = r', outcome = Raised e\<rparr>
      | (Dropped, r') \<Rightarrow> for_topics P cfg ts r'
      | (Yield wu, r') \<Rightarrow>
          (let rest = for_topics P cfg ts r' in rest\<lparr>yielded := wu # yielded rest\<rparr>))"

text \<open>
  \<open>get_workunits\<close>: the first pull calls \<open>self.consumer.list_topics()\<close>; on a consumer
  attribute that is \<open>None\<close> the attribute lookup raises.
\<close>

definition get_workunits :: "'c platform \<Rightarrow> 'c kafka_source \<Rightarrow> run" where
  "get_workunits P src =
     (case consumer src of
        None \<Rightarrow>
          \<lparr>yielded = [], report_after = report src,
           outcome = Raised (Exn ''AttributeError''
             (CHR 0x27 # ''NoneType'' @ CHR 0x27 # '' object has no attribute '' @ CHR 0x27 # ''list_topics'' @ [CHR 0x27]))\<rparr>
      | Some c \<Rightarrow>
          (case list_topics P c of
             Inl e \<Rightarrow> \<lparr>yielded = [], report_after = report src, outcome = Raised e\<rparr>
           | Inr topics \<Rightarrow> for_topics P (source_config src) topics (report src)))"

definition get_report :: "'c kafka_source \<Rightarrow> kafka_source_report" where
  "get_report src = report src"

text \<open>
  \<open>close\<close>: \<open>if self.consumer: self.consumer.close()\<close>. The attribute is not reset, so
  the source keeps the consumer object, in the state its own \<open>close\<close> left it.
\<close>

definition close :: "'c platform \<Rightarrow> 'c kafka_source \<Rightarrow> exn + 'c kafka_source" where
  "close P src =
     (case consumer src of
        None \<Rightarrow> Inr src
      | Some c \<Rightarrow>
          (case consumer_close P c of
             Inl e \<Rightarrow> Inl e
           | Inr c' \<Rightarrow> Inr (src\<lparr>consumer := Some c'\<rparr>)))"

section \<open>Concrete platforms\<close>

text \<open>
  A registry with two subjects: \<open>orders-value\<close> holds an Avro schema,
  \<open>customers-value\<close> a JSON schema, and the lookup of any other subject raises.
\<close>

definition demo_registry :: "string \<Rightarrow> exn + registered_schema" where
  "demo_registry subject =
     (if subject = ''orders-value'' then
        Inr \<lparr>schema = \<lparr>schema_str = ''{type: record, name: Order}'', schema_type = ''AVRO'', hash' = 42\<rparr>\<rparr>
      else if subject = ''customers-value'' then
        Inr \<lparr>schema = \<lparr>schema_str = ''{type: object}'', schema_type = ''JSON'', hash' = - 7\<rparr>\<rparr>
      else Inl (Exn ''SchemaRegistryError'' ''Subject not found''))"

definition fields_ok :: "string \<Rightarrow> exn + schema_field list" where
  "fields_ok s =
     Inr [\<lparr>fieldPath = ''id'', field_type = ''string'', nullable = False,
           nativeDataType = ''string'', description = None\<rparr>]"

definition fields_raise :: "string \<Rightarrow> exn + schema_field list" where
  "fields_raise s = Inl (Exn ''SchemaParseException'' ''not a record schema'')"

text \<open>
  A platform whose consumer refuses work once it is closed: its state is whether it has
  been closed, and a closed consumer raises \<open>RuntimeError\<close> from \<open>list_topics\<close> and
  from a second \<open>close\<close>. The topics, the normalizer and the clock are given.
\<close>

definition kafka_platform :: "string list \<Rightarrow> (string \<Rightarrow> exn + schema_field list) \<Rightarrow> (string \<Rightarrow> int) \<Rightarrow> bool platform" where
  "kafka_platform topics normalizer clock =
     \<lparr>new_consumer = (\<lambda>cfg. Inr False),
      new_schema_registry_client = (\<lambda>cfg. Inr ()),
      list_topics = (\<lambda>closed. if closed then Inl (Exn ''RuntimeError'' ''Consumer closed'') else Inr topics),
      consumer_close = (\<lambda>closed. if closed then Inl (Exn ''RuntimeError'' ''Consumer already closed'') else Inr True),
      get_latest_version = demo_registry,
      avro_schema_to_mce_fields = normalizer,
      time_time = clock\<rparr>"

definition demo_config :: kafka_source_config where
  "demo_config =
     \<lparr>connection = \<lparr>bootstrap = ''localhost:9092'', consumer_config = [],
                    schema_registry_url = ''http://localhost:8081''\<rparr>,
      topic_patterns = default_topic_patterns\<rparr>"

text \<open>The source that \<open>__init__\<close> returns on such a platform.\<close>

definition demo_source :: "bool kafka_source" where
  "demo_source = \<lparr>source_config = demo_config, consumer = Some False, report = KafkaSourceReport\<rparr>"

text \<open>A clock that stands still, and three platforms for the scenarios below.\<close>

definition clock0 :: "string \<Rightarrow> int" where
  "clock0 topic = 1614556800"

definition scenario_a :: "bool platform" where
  "scenario_a = kafka_platform [''orders'', ''_internal'', ''customers''] fields_ok clock0"

definition scenario_b :: "bool platform" where
  "scenario_b = kafka_platform [''events''] fields_ok clock0"

text \<open>The work units of these runs.\<close>

definition events_workunit :: metadata_workunit where
  "events_workunit =
     \<lparr>id' = ''kafka-events'',
      mce = \<lparr>proposedSnapshot =
              \<lparr>urn = ''urn:li:dataset:(urn:li:dataPlatform:kafka,events,PROD)'',
               aspects = [Status False]\<rparr>\<rparr>\<rparr>"

definition demo_stamp :: audit_stamp where
  "demo_stamp = \<lparr>time = 1614556800000, actor = ''urn:li:corpuser:etl''\<rparr>"

definition orders_workunit :: metadata_workunit where
  "orders_workunit =
     \<lparr>id' = ''kafka-orders'',
      mce = \<lparr>proposedSnapshot =
              \<lparr>urn = ''urn:li:dataset:(urn:li:dataPlatform:kafka,orders,PROD)'',
               aspects =
                 [Status False,
                  SchemaMetadata
                    \<lparr>schemaName = ''orders'', version = 0, hash = ''42'',
                     platform = ''urn:li:dataPlatform:kafka'',
                     platformSchema = \<lparr>documentSchema = ''{type: record, name: Order}''\<rparr>,
                     fields' = [\<lparr>fieldPath = ''id'', field_type = ''string'', nullable = False,
                                 nativeDataType = ''string'', description = None\<rparr>],
                     created = demo_stamp, lastModified = demo_stamp\<rparr>]\<rparr>\<rparr>\<rparr>"

definition customers_workunit :: metadata_workunit where
  "customers_workunit =
     \<lparr>id' = ''kafka-customers'',
      mce = \<lparr>proposedSnapshot =
              \<lparr>urn = ''urn:li:dataset:(urn:li:dataPlatform:kafka,customers,PROD)'',
               aspects =
                 [Status False,
                  SchemaMetadata
                    \<lparr>schemaName = ''customers'', version = 0, hash = ''-7'',
                     platform = ''urn:li:dataPlatform:kafka'',
                     platformSchema = \<lparr>documentSchema = ''{type: object}''\<rparr>,
                     fields' = [],
                     created = demo_stamp, lastModified = demo_stamp\<rparr>]\<rparr>\<rparr>\<rparr>"

text \<open>
  Further platforms: one whose only topic has a JSON schema, one whose normalizer raises,
  one that differs from \<open>scenario_a\<close> in its clock only, and one whose consumer accepts
  a second \<open>close\<close>.
\<close>

definition json_only :: "bool platform" where
  "json_only = kafka_platform [''customers''] fields_ok clock0"

definition bad_avro :: "bool platform" where
  "bad_avro = kafka_platform [''orders'', ''customers''] fields_raise clock0"

definition clock1 :: "string \<Rightarrow> int" where
  "clock1 topic = 1614643200 + int (length topic)"

definition scenario_a_later :: "bool platform" where
  "scenario_a_later = kafka_platform [''orders'', ''_internal'', ''customers''] fields_ok clock1"

definition lenient_close :: "bool platform" where
  "lenient_close = scenario_a\<lparr>consumer_close := (\<lambda>closed. Inr True)\<rparr>"

text \<open>The demo source after a successful \<open>close\<close>.\<close>

definition closed_source :: "bool kafka_source" where
  "closed_source = demo_source\<lparr>consumer := Some True\<rparr>"

text \<open>Whether an aspect is a schema aspect.\<close>

fun is_schema_metadata :: "aspect \<Rightarrow> bool" where
  "is_schema_metadata (SchemaMetadata sm) = True"
| "is_schema_metadata (Status b) = False"

text \<open>A platform without topics.\<close>

definition no_topics :: "bool platform" where
  "no_topics = kafka_platform [] fields_ok clock0"

section \<open>The scenario runs, evaluated\<close>

lemmas demo_defs = kafka_platform_def demo_registry_def demo_source_def demo_config_def
  default_topic_patterns_def KafkaSourceReport_def fields_ok_def fields_raise_def clock0_def
  demo_stamp_def

lemmas run_defs = get_workunits_def visit_def extract_record_def allowed_def re_fullmatch_def
  drop_caret_def atom_of_def report_topic_scanned_def report_warning_def report_workunit_def
  report_dropped_def append_reason_def Let_def

lemma str_int_42: "str_int 42 = ''42''"
  by code_simp

lemma str_int_minus_7: "str_int (- 7) = ''-7''"
  by code_simp

lemma scenario_a_run:
  "get_workunits scenario_a demo_source =
     \<lparr>yielded = [orders_workunit, customers_workunit],
      report_after = \<lparr>workunits_produced = 2, topics_scanned = 3,
                      warnings = [(''customers'', [''unable to parse kafka schema type JSON''])],
                      failures = [], filtered = [''_internal'']\<rparr>,
      outcome = Exhausted\<rparr>"
  by (simp add: scenario_a_def orders_workunit_def customers_workunit_def demo_defs run_defs
      str_int_42 str_int_minus_7)

lemma scenario_b_run:
  "get_workunits scenario_b demo_source =
     \<lparr>yielded = [events_workunit],
      report_after = \<lparr>workunits_produced = 1, topics_scanned = 1,
                      warnings = [(''events'', [''failed to get schema: Subject not found''])],
                      failures = [], filtered = []\<rparr>,
      outcome = Exhausted\<rparr>"
  by (simp add: scenario_b_def events_workunit_def demo_defs run_defs)

lemma bad_avro_run:
  "get_workunits bad_avro demo_source =
     \<lparr>yielded = [],
      report_after = \<lparr>workunits_produced = 0, topics_scanned = 1, warnings = [], failures = [], filtered = []\<rparr>,
      outcome = Raised (Exn ''SchemaParseException'' ''not a record schema'')\<rparr>"
  by (simp add: bad_avro_def demo_defs run_defs)

lemma close_demo_source:
  "close scenario_a demo_source = Inr closed_source"
  by (simp add: close_def closed_source_def demo_source_def scenario_a_def kafka_platform_def)

section \<open>Extraction, case by case\<close>

lemma extract_record_fetch_raises:
  "get_latest_version P (t @ ''-value'') = Inl e \<Longrightarrow>
   extract_record P t r =
     (Inr \<lparr>proposedSnapshot =
            \<lparr>urn = ''urn:li:dataset:(urn:li:dataPlatform:kafka,'' @ t @ '',PROD)'',
             aspects = [Status False]\<rparr>\<rparr>,
      report_warning t (''failed to get schema: '' @ exn_str e) r)"
  by (simp add: extract_record_def)

lemma extract_record_unsupported:
  "get_latest_version P (t @ ''-value'') = Inr reg \<Longrightarrow> schema_type (schema reg) \<noteq> ''AVRO'' \<Longrightarrow>
   extract_record P t r =
     (Inr \<lparr>proposedSnapshot =
            \<lparr>urn = ''urn:li:dataset:(urn:li:dataPlatform:kafka,'' @ t @ '',PROD)'',
             aspects =
               [Status False,
                SchemaMetadata
                  \<lparr>schemaName = t, version = 0, hash = str_int (hash' (schema reg)),
                   platform = ''urn:li:dataPlatform:kafka'',
                   platformSchema = \<lparr>documentSchema = schema_str (schema reg)\<rparr>,
                   fields' = [],
                   created = \<lparr>time = time_time P t * 1000, actor = ''urn:li:corpuser:etl''\<rparr>,
                   lastModified = \<lparr>time = time_time P t * 1000, actor = ''urn:li:corpuser:etl''\<rparr>\<rparr>]\<rparr>\<rparr>,
      report_warning t (''unable to parse kafka schema type '' @ schema_type (schema reg)) r)"
  by (simp add: extract_record_def Let_def)

lemma extract_record_avro_raises:
  "get_latest_version P (t @ ''-value'') = Inr reg \<Longrightarrow> schema_type (schema reg) = ''AVRO'' \<Longrightarrow>
   avro_schema_to_mce_fields P (schema_str (schema reg)) = Inl e \<Longrightarrow>
   extract_record P t r = (Inl e, r)"
  by (simp add: extract_record_def Let_def)

lemma extract_record_Inr:
  assumes "extract_record P t r = (Inr m, r')"
  shows "urn (proposedSnapshot m) = ''urn:li:dataset:(urn:li:dataPlatform:kafka,'' @ t @ '',PROD)''"
    and "\<exists>rest. aspects (proposedSnapshot m) = Status False # rest"
  using assms
  by (auto simp: extract_record_def Let_def split: sum.splits if_splits)

lemma extract_record_Inl:
  assumes "extract_record P t r = (Inl e, r')"
  shows "r' = r"
    and "\<exists>reg. get_latest_version P (t @ ''-value'') = Inr reg \<and> schema_type (schema reg) = ''AVRO''
           \<and> avro_schema_to_mce_fields P (schema_str (schema reg)) = Inl e"
  using assms
  by (auto simp: extract_record_def Let_def split: sum.splits if_splits)

section \<open>The loop body, case by case\<close>

lemma visit_rejected:
  "\<not> allowed (topic_patterns cfg) t \<Longrightarrow>
   visit P cfg t r = (Dropped, report_dropped t (report_topic_scanned t r))"
  by (simp add: visit_def)

lemma visit_raises:
  "allowed (topic_patterns cfg) t \<Longrightarrow> extract_record P t (report_topic_scanned t r) = (Inl e, r2) \<Longrightarrow>
   visit P cfg t r = (Throw e, r2)"
  by (simp add: visit_def)

lemma visit_yields:
  "allowed (topic_patterns cfg) t \<Longrightarrow> extract_record P t (report_topic_scanned t r) = (Inr m, r2) \<Longrightarrow>
   visit P cfg t r =
     (Yield \<lparr>id' = ''kafka-'' @ t, mce = m\<rparr>, report_workunit \<lparr>id' = ''kafka-'' @ t, mce = m\<rparr> r2)"
  by (simp add: visit_def Let_def)

lemma visit_Yield:
  assumes "visit P cfg t r = (Yield wu, r')"
  shows "allowed (topic_patterns cfg) t"
    and "id' wu = ''kafka-'' @ t"
    and "\<exists>r2. extract_record P t (report_topic_scanned t r) = (Inr (mce wu), r2)"
  using assms
  by (auto simp: visit_def Let_def split: if_splits prod.splits sum.splits)

lemma yielded_from_visit:
  "wu \<in> set (yielded (for_topics P cfg ts r)) \<Longrightarrow>
   \<exists>t r0 r1. t \<in> set ts \<and> visit P cfg t r0 = (Yield wu, r1)"
proof (induction ts arbitrary: r)
  case Nil
  then show ?case by simp
next
  case (Cons t ts)
  obtain s r' where v: "visit P cfg t r = (s, r')" by (cases "visit P cfg t r")
  show ?case
  proof (cases s)
    case Dropped
    with Cons v show ?thesis by fastforce
  next
    case (Yield w)
    with Cons.prems v have "wu = w \<or> wu \<in> set (yielded (for_topics P cfg ts r'))"
      by (simp add: Let_def)
    then show ?thesis
    proof
      assume "wu = w"
      with v Yield show ?thesis by auto
    next
      assume "wu \<in> set (yielded (for_topics P cfg ts r'))"
      from Cons.IH[OF this] show ?thesis by auto
    qed
  next
    case (Throw e)
    with Cons.prems v show ?thesis by simp
  qed
qed

lemma yielded_get_workunits:
  "wu \<in> set (yielded (get_workunits P src)) \<Longrightarrow>
   \<exists>c ts. consumer src = Some c \<and> list_topics P c = Inr ts
     \<and> wu \<in> set (yielded (for_topics P (source_config src) ts (report src)))"
  by (auto simp: get_workunits_def split: option.splits sum.splits)

section \<open>Warnings of other topics\<close>

lemma map_of_append_reason:
  "map_of (append_reason t x d) t' =
     (if t' = t then Some ((case map_of d t of None \<Rightarrow> [] | Some rs \<Rightarrow> rs) @ [x]) else map_of d t')"
  by (simp add: append_reason_def update_conv' split: option.splits)

lemma extract_record_warnings_other:
  "t' \<noteq> t \<Longrightarrow> map_of (warnings (snd (extract_record P t r))) t' = map_of (warnings r) t'"
  by (simp add: extract_record_def Let_def report_warning_def map_of_append_reason split: sum.splits)

lemma visit_warnings_other:
  "t' \<noteq> t \<Longrightarrow> map_of (warnings (snd (visit P cfg t r))) t' = map_of (warnings r) t'"
  using extract_record_warnings_other[of t' t P "report_topic_scanned t r"]
  by (auto simp: visit_def Let_def report_workunit_def report_dropped_def report_topic_scanned_def
      split: prod.splits sum.splits)

lemma for_topics_warnings_other:
  "t' \<notin> set ts \<Longrightarrow> map_of (warnings (report_after (for_topics P cfg ts r))) t' = map_of (warnings r) t'"
proof (induction ts arbitrary: r)
  case Nil
  then show ?case by simp
next
  case (Cons t ts)
  obtain s r' where v: "visit P cfg t r = (s, r')" by (cases "visit P cfg t r")
  from Cons.prems have ne: "t' \<noteq> t" and notin: "t' \<notin> set ts" by auto
  from visit_warnings_other[OF ne, of P cfg r] v
  have w: "map_of (warnings r') t' = map_of (warnings r) t'" by simp
  show ?case
    using v w Cons.IH[OF notin, of r'] by (cases s) (simp_all add: Let_def)
qed

section \<open>What a run leaves in the report\<close>

lemma extract_record_keeps:
  "topics_scanned (snd (extract_record P t r)) = topics_scanned r"
  "filtered (snd (extract_record P t r)) = filtered r"
  "failures (snd (extract_record P t r)) = failures r"
  "workunits_produced (snd (extract_record P t r)) = workunits_produced r"
  by (simp_all add: extract_record_def Let_def report_warning_def split: sum.splits)

lemma visit_report:
  "topics_scanned (snd (visit P cfg t r)) = topics_scanned r + 1"
  "failures (snd (visit P cfg t r)) = failures r"
  "filtered (snd (visit P cfg t r)) = (if allowed (topic_patterns cfg) t then filtered r else filtered r @ [t])"
  using extract_record_keeps[of P t "report_topic_scanned t r"]
  by (auto simp: visit_def Let_def report_workunit_def report_dropped_def report_topic_scanned_def
      split: prod.splits sum.splits)

lemma visit_step_kind:
  "visit P cfg t r = (Dropped, r') \<Longrightarrow> \<not> allowed (topic_patterns cfg) t"
  "visit P cfg t r = (Throw e, r') \<Longrightarrow> allowed (topic_patterns cfg) t"
  "visit P cfg t r = (Throw e, r') \<Longrightarrow> extract_record P t (report_topic_scanned t r) = (Inl e, r')"
  by (auto simp: visit_def Let_def split: if_splits prod.splits sum.splits)

lemma for_topics_failures:
  "failures (report_after (for_topics P cfg ts r)) = failures r"
proof (induction ts arbitrary: r)
  case Nil
  show ?case by simp
next
  case (Cons t ts)
  obtain s r' where v: "visit P cfg t r = (s, r')" by (cases "visit P cfg t r")
  from visit_report(2)[of P cfg t r] v have "failures r' = failures r" by simp
  with v Cons.IH[of r'] show ?case by (cases s) (simp_all add: Let_def)
qed

lemma for_topics_exhausted:
  "outcome (for_topics P cfg ts r) = Exhausted \<Longrightarrow>
   topics_scanned (report_after (for_topics P cfg ts r)) = topics_scanned r + int (length ts) \<and>
   filtered (report_after (for_topics P cfg ts r)) =
     filtered r @ filter (\<lambda>t. \<not> allowed (topic_patterns cfg) t) ts \<and>
   map id' (yielded (for_topics P cfg ts r)) =
     map (\<lambda>t. ''kafka-'' @ t) (filter (allowed (topic_patterns cfg)) ts)"
proof (induction ts arbitrary: r)
  case Nil
  show ?case by simp
next
  case (Cons t ts)
  obtain s r' where v: "visit P cfg t r = (s, r')" by (cases "visit P cfg t r")
  from visit_report(1)[of P cfg t r] v have sc: "topics_scanned r' = topics_scanned r + 1" by simp
  from visit_report(3)[of P cfg t r] v
  have fl: "filtered r' = (if allowed (topic_patterns cfg) t then filtered r else filtered r @ [t])" by simp
  show ?case
  proof (cases s)
    case Dropped
    with v have na: "\<not> allowed (topic_patterns cfg) t" by (simp add: visit_step_kind(1))
    from Cons.prems v Dropped have "outcome (for_topics P cfg ts r') = Exhausted" by simp
    from Cons.IH[OF this] v Dropped sc fl na show ?thesis by simp
  next
    case (Yield wu)
    with v have al: "allowed (topic_patterns cfg) t" and wid: "id' wu = ''kafka-'' @ t"
      by (simp_all add: visit_Yield)
    from Cons.prems v Yield have "outcome (for_topics P cfg ts r') = Exhausted" by (simp add: Let_def)
    from Cons.IH[OF this] v Yield sc fl al wid show ?thesis by (simp add: Let_def)
  next
    case (Throw e)
    with Cons.prems v show ?thesis by simp
  qed
qed

lemma for_topics_raised:
  "outcome (for_topics P cfg ts r) = Raised e \<Longrightarrow>
   \<exists>pre t post reg. ts = pre @ t # post \<and> allowed (topic_patterns cfg) t \<and>
     get_latest_version P (t @ ''-value'') = Inr reg \<and> schema_type (schema reg) = ''AVRO'' \<and>
     avro_schema_to_mce_fields P (schema_str (schema reg)) = Inl e \<and>
     topics_scanned (report_after (for_topics P cfg ts r)) = topics_scanned r + int (length pre) + 1 \<and>
     filtered (report_after (for_topics P cfg ts r)) =
       filtered r @ filter (\<lambda>t. \<not> allowed (topic_patterns cfg) t) pre \<and>
     map id' (yielded (for_topics P cfg ts r)) =
       map (\<lambda>t. ''kafka-'' @ t) (filter (allowed (topic_patterns cfg)) pre)"
proof (induction ts arbitrary: r)
  case Nil
  then show ?case by simp
next
  case (Cons t ts)
  obtain s r' where v: "visit P cfg t r = (s, r')" by (cases "visit P cfg t r")
  from visit_report(1)[of P cfg t r] v have sc: "topics_scanned r' = topics_scanned r + 1" by simp
  from visit_report(3)[of P cfg t r] v
  have fl: "filtered r' = (if allowed (topic_patterns cfg) t then filtered r else filtered r @ [t])" by simp
  show ?case
  proof (cases s)
    case Dropped
    with v have na: "\<not> allowed (topic_patterns cfg) t" by (simp add: visit_step_kind(1))
    from Cons.prems v Dropped have "outcome (for_topics P cfg ts r') = Raised e" by simp
    from Cons.IH[OF this] obtain pre u post reg where ih:
      "ts = pre @ u # post" "allowed (topic_patterns cfg) u"
      "get_latest_version P (u @ ''-value'') = Inr reg" "schema_type (schema reg) = ''AVRO''"
      "avro_schema_to_mce_fields P (schema_str (schema reg)) = Inl e"
      "topics_scanned (report_after (for_topics P cfg ts r')) = topics_scanned r' + int (length pre) + 1"
      "filtered (report_after (for_topics P cfg ts r')) =
         filtered r' @ filter (\<lambda>t. \<not> allowed (topic_patterns cfg) t) pre"
      "map id' (yielded (for_topics P cfg ts r')) =
         map (\<lambda>t. ''kafka-'' @ t) (filter (allowed (topic_patterns cfg)) pre)"
      by blast
    show ?thesis
      apply (rule exI[of _ "t # pre"], rule exI[of _ u], rule exI[of _ post], rule exI[of _ reg])
      using ih v Dropped sc fl na by simp
  next
    case (Yield wu)
    with v have al: "allowed (topic_patterns cfg) t" and wid: "id' wu = ''kafka-'' @ t"
      by (simp_all add: visit_Yield)
    from Cons.prems v Yield have "outcome (for_topics P cfg ts r') = Raised e" by (simp add: Let_def)
    from Cons.IH[OF this] obtain pre u post reg where ih:
      "ts = pre @ u # post" "allowed (topic_patterns cfg) u"
      "get_latest_version P (u @ ''-value'') = Inr reg" "schema_type (schema reg) = ''AVRO''"
      "avro_schema_to_mce_fields P (schema_str (schema reg)) = Inl e"
      "topics_scanned (report_after (for_topics P cfg ts r')) = topics_scanned r' + int (length pre) + 1"
      "filtered (report_after (for_topics P cfg ts r')) =
         filtered r' @ filter (\<lambda>t. \<not> allowed (topic_patterns cfg) t) pre"
      "map id' (yielded (for_topics P cfg ts r')) =
         map (\<lambda>t. ''kafka-'' @ t) (filter (allowed (topic_patterns cfg)) pre)"
      by blast
    show ?thesis
      apply (rule exI[of _ "t # pre"], rule exI[of _ u], rule exI[of _ post], rule exI[of _ reg])
      using ih v Yield sc fl al wid by (simp add: Let_def)
  next
    case (Throw e')
    with Cons.prems v have ee: "e' = e" by simp
    from v Throw ee have al: "allowed (topic_patterns cfg) t"
      and ex: "extract_record P t (report_topic_scanned t r) = (Inl e, r')"
      by (simp_all add: visit_step_kind)
    from extract_record_Inl(2)[OF ex] obtain reg where rg:
      "get_latest_version P (t @ ''-value'') = Inr reg" "schema_type (schema reg) = ''AVRO''"
      "avro_schema_to_mce_fields P (schema_str (schema reg)) = Inl e" by blast
    show ?thesis
      apply (rule exI[of _ "[]"], rule exI[of _ t], rule exI[of _ ts], rule exI[of _ reg])
      using rg al v Throw sc fl by simp
  qed
qed

section \<open>What every emitted record carries\<close>

text \<open>
  C8. For every topic \<open>t\<close>, a record that \<open>_extract_record\<close> returns has the entity urn
  \<open>urn:li:dataset:(urn:li:dataPlatform:kafka,t,PROD)\<close>, which is the fixed format
  \<open>urn:<scheme>:<platform-kind>:(<platform-urn>,<resource-name>,<environment>)\<close> with the
  scheme \<open>li\<close>, the platform urn \<open>urn:li:dataPlatform:kafka\<close> and the environment
  \<open>PROD\<close>; and every work unit that \<open>get_workunits\<close> yields has the id
  \<open>kafka-t\<close> and that urn for one and the same topic \<open>t\<close>.
\<close>

theorem entity_urn_fixed_format:
  "(\<forall>m r'. extract_record P t r = (Inr m, r') \<longrightarrow>
      urn (proposedSnapshot m) = ''urn:li:dataset:(urn:li:dataPlatform:kafka,'' @ t @ '',PROD)'' \<and>
      urn (proposedSnapshot m) =
        ''urn:'' @ ''li'' @ '':'' @ ''dataset'' @ '':('' @ ''urn:li:dataPlatform:kafka'' @ '','' @ t @ '','' @ ''PROD'' @ '')'') \<and>
   (\<forall>wu \<in> set (yielded (get_workunits P src)).
      \<exists>t'. id' wu = ''kafka-'' @ t' \<and>
        urn (proposedSnapshot (mce wu)) = ''urn:li:dataset:(urn:li:dataPlatform:kafka,'' @ t' @ '',PROD)'')"
proof (intro conjI allI impI ballI)
  fix m r' assume h: "extract_record P t r = (Inr m, r')"
  from extract_record_Inr(1)[OF h]
  show u: "urn (proposedSnapshot m) = ''urn:li:dataset:(urn:li:dataPlatform:kafka,'' @ t @ '',PROD)''" .
  then show "urn (proposedSnapshot m) =
        ''urn:'' @ ''li'' @ '':'' @ ''dataset'' @ '':('' @ ''urn:li:dataPlatform:kafka'' @ '','' @ t @ '','' @ ''PROD'' @ '')''"
    by simp
next
  fix wu assume "wu \<in> set (yielded (get_workunits P src))"
  from yielded_get_workunits[OF this] obtain c ts where
    "wu \<in> set (yielded (for_topics P (source_config src) ts (report src)))" by blast
  from yielded_from_visit[OF this] obtain t' r0 r1 where
    v: "visit P (source_config src) t' r0 = (Yield wu, r1)" by blast
  from visit_Yield(3)[OF v] obtain r2 where
    e: "extract_record P t' (report_topic_scanned t' r0) = (Inr (mce wu), r2)" by blast
  from visit_Yield(2)[OF v] extract_record_Inr(1)[OF e]
  show "\<exists>t'. id' wu = ''kafka-'' @ t' \<and>
        urn (proposedSnapshot (mce wu)) = ''urn:li:dataset:(urn:li:dataPlatform:kafka,'' @ t' @ '',PROD)''"
    by blast
qed

theorem entity_urn_fixed_format_witness:
  "events_workunit \<in> set (yielded (get_workunits scenario_b demo_source)) \<and>
   id' events_workunit = ''kafka-events'' \<and>
   urn (proposedSnapshot (mce events_workunit)) = ''urn:li:dataset:(urn:li:dataPlatform:kafka,events,PROD)''"
proof -
  have mem: "events_workunit \<in> set (yielded (get_workunits scenario_b demo_source))"
    by (simp add: scenario_b_run)
  from entity_urn_fixed_format[of scenario_b "''events''" KafkaSourceReport demo_source] mem
  obtain t' where "id' events_workunit = ''kafka-'' @ t'"
    and "urn (proposedSnapshot (mce events_workunit)) = ''urn:li:dataset:(urn:li:dataPlatform:kafka,'' @ t' @ '',PROD)''"
    by blast
  then show ?thesis using mem by (simp add: events_workunit_def)
qed

text \<open>
  C10. Every work unit that \<open>get_workunits\<close> yields has \<open>Status(removed=False)\<close> as the
  first aspect of its snapshot, whatever the registry lookup and the normalizer did.
\<close>

theorem status_aspect_first:
  "\<forall>wu \<in> set (yielded (get_workunits P src)).
     \<exists>rest. aspects (proposedSnapshot (mce wu)) = Status False # rest"
proof
  fix wu assume "wu \<in> set (yielded (get_workunits P src))"
  from yielded_get_workunits[OF this] obtain c ts where
    "wu \<in> set (yielded (for_topics P (source_config src) ts (report src)))" by blast
  from yielded_from_visit[OF this] obtain t' r0 r1 where
    v: "visit P (source_config src) t' r0 = (Yield wu, r1)" by blast
  from visit_Yield(3)[OF v] obtain r2 where
    e: "extract_record P t' (report_topic_scanned t' r0) = (Inr (mce wu), r2)" by blast
  from extract_record_Inr(2)[OF e]
  show "\<exists>rest. aspects (proposedSnapshot (mce wu)) = Status False # rest" .
qed

theorem status_aspect_first_witness:
  "orders_workunit \<in> set (yielded (get_workunits scenario_a demo_source)) \<and>
   customers_workunit \<in> set (yielded (get_workunits scenario_a demo_source)) \<and>
   hd (aspects (proposedSnapshot (mce orders_workunit))) = Status False \<and>
   hd (aspects (proposedSnapshot (mce customers_workunit))) = Status False"
proof -
  have m1: "orders_workunit \<in> set (yielded (get_workunits scenario_a demo_source))"
    and m2: "customers_workunit \<in> set (yielded (get_workunits scenario_a demo_source))"
    by (simp_all add: scenario_a_run)
  from status_aspect_first[of scenario_a demo_source] m1
  obtain rest1 where a1: "aspects (proposedSnapshot (mce orders_workunit)) = Status False # rest1"
    by blast
  from status_aspect_first[of scenario_a demo_source] m2
  obtain rest2 where a2: "aspects (proposedSnapshot (mce customers_workunit)) = Status False # rest2"
    by blast
  from m1 m2 a1 a2 show ?thesis by simp
qed

section \<open>Registry lookups that fail\<close>

lemma outcome_rest:
  "outcome (for_topics P cfg (t # ts) r) = Exhausted \<Longrightarrow> visit P cfg t r = (s, r') \<Longrightarrow>
   outcome (for_topics P cfg ts r') = Exhausted \<and> (\<forall>e. s \<noteq> Throw e)"
  by (cases s) (auto simp: Let_def)

lemma for_topics_fetch_raises:
  assumes al: "allowed (topic_patterns cfg) t"
    and fr: "get_latest_version P (t @ ''-value'') = Inl e"
  shows "distinct ts \<Longrightarrow> t \<in> set ts \<Longrightarrow> outcome (for_topics P cfg ts r) = Exhausted \<Longrightarrow>
     map_of (warnings (report_after (for_topics P cfg ts r))) t =
       Some ((case map_of (warnings r) t of None \<Rightarrow> [] | Some rs \<Rightarrow> rs) @ [''failed to get schema: '' @ exn_str e]) \<and>
     \<lparr>id' = ''kafka-'' @ t,
      mce = \<lparr>proposedSnapshot =
              \<lparr>urn = ''urn:li:dataset:(urn:li:dataPlatform:kafka,'' @ t @ '',PROD)'',
               aspects = [Status False]\<rparr>\<rparr>\<rparr> \<in> set (yielded (for_topics P cfg ts r))"
proof (induction ts arbitrary: r)
  case Nil
  then show ?case by simp
next
  case (Cons u ts)
  obtain s r' where v: "visit P cfg u r = (s, r')" by (cases "visit P cfg u r")
  from outcome_rest[OF Cons.prems(3) v]
  have ex: "outcome (for_topics P cfg ts r') = Exhausted" and nt: "\<forall>e. s \<noteq> Throw e" by simp_all
  show ?case
  proof (cases "u = t")
    case True
    from Cons.prems(1) True have notin: "t \<notin> set ts" by simp
    let ?wu = "\<lparr>id' = ''kafka-'' @ t,
      mce = \<lparr>proposedSnapshot =
              \<lparr>urn = ''urn:li:dataset:(urn:li:dataPlatform:kafka,'' @ t @ '',PROD)'',
               aspects = [Status False]\<rparr>\<rparr>\<rparr>"
    from visit_yields[OF al extract_record_fetch_raises[OF fr], of "r"] v True
    have s: "s = Yield ?wu"
      and r': "r' = report_workunit ?wu (report_warning t (''failed to get schema: '' @ exn_str e) (report_topic_scanned t r))"
      by simp_all
    from r' have w: "map_of (warnings r') t =
       Some ((case map_of (warnings r) t of None \<Rightarrow> [] | Some rs \<Rightarrow> rs) @ [''failed to get schema: '' @ exn_str e])"
      by (simp add: report_workunit_def report_warning_def report_topic_scanned_def map_of_append_reason)
    from for_topics_warnings_other[OF notin, of P cfg r'] w v s True
    show ?thesis by (simp add: Let_def)
  next
    case False
    with Cons.prems have d: "distinct ts" and m: "t \<in> set ts" by auto
    from False have "t \<noteq> u" by simp
    from visit_warnings_other[OF this, of P cfg r] v
    have w: "map_of (warnings r') t = map_of (warnings r) t" by simp
    from Cons.IH[OF d m ex] w v nt show ?thesis by (cases s) (simp_all add: Let_def)
  qed
qed

text \<open>
  C2. For an accepted topic whose registry lookup raises, \<open>_extract_record\<close> catches
  the exception and returns a record with the status aspect only; the loop body yields the
  work unit \<open>kafka-t\<close> with that record, appends exactly one reason to the warnings of
  that topic, leaves the warnings of other topics and the failures alone. Over a whole run
  that starts without warnings for the topic and ends normally, the topic has exactly that
  one warning and its work unit is among those yielded.
\<close>

theorem fetch_failure_is_a_warning:
  assumes "allowed (topic_patterns cfg) t"
    and "get_latest_version P (t @ ''-value'') = Inl e"
  shows "fst (extract_record P t r0) =
           Inr \<lparr>proposedSnapshot =
                 \<lparr>urn = ''urn:li:dataset:(urn:li:dataPlatform:kafka,'' @ t @ '',PROD)'',
                  aspects = [Status False]\<rparr>\<rparr> \<and>
         fst (visit P cfg t r) =
           Yield \<lparr>id' = ''kafka-'' @ t,
                  mce = \<lparr>proposedSnapshot =
                          \<lparr>urn = ''urn:li:dataset:(urn:li:dataPlatform:kafka,'' @ t @ '',PROD)'',
                           aspects = [Status False]\<rparr>\<rparr>\<rparr> \<and>
         map_of (warnings (snd (visit P cfg t r))) t =
           Some ((case map_of (warnings r) t of None \<Rightarrow> [] | Some rs \<Rightarrow> rs)
                 @ [''failed to get schema: '' @ exn_str e]) \<and>
         (\<forall>t'. t' \<noteq> t \<longrightarrow> map_of (warnings (snd (visit P cfg t r))) t' = map_of (warnings r) t') \<and>
         failures (snd (visit P cfg t r)) = failures r \<and>
         (distinct ts \<and> t \<in> set ts \<and> map_of (warnings r) t = None \<and>
          outcome (for_topics P cfg ts r) = Exhausted \<longrightarrow>
            map_of (warnings (report_after (for_topics P cfg ts r))) t =
              Some [''failed to get schema: '' @ exn_str e] \<and>
            \<lparr>id' = ''kafka-'' @ t,
             mce = \<lparr>proposedSnapshot =
                     \<lparr>urn = ''urn:li:dataset:(urn:li:dataPlatform:kafka,'' @ t @ '',PROD)'',
                      aspects = [Status False]\<rparr>\<rparr>\<rparr> \<in> set (yielded (for_topics P cfg ts r)))"
proof -
  let ?m = "\<lparr>proposedSnapshot =
                 \<lparr>urn = ''urn:li:dataset:(urn:li:dataPlatform:kafka,'' @ t @ '',PROD)'',
                  aspects = [Status False]\<rparr>\<rparr>"
  let ?msg = "''failed to get schema: '' @ exn_str e"
  have a: "fst (extract_record P t r0) = Inr ?m"
    by (simp add: extract_record_fetch_raises[OF assms(2)])
  have v: "visit P cfg t r = (Yield \<lparr>id' = ''kafka-'' @ t, mce = ?m\<rparr>,
      report_workunit \<lparr>id' = ''kafka-'' @ t, mce = ?m\<rparr> (report_warning t ?msg (report_topic_scanned t r)))"
    by (rule visit_yields[OF assms(1) extract_record_fetch_raises[OF assms(2)]])
  have b: "fst (visit P cfg t r) = Yield \<lparr>id' = ''kafka-'' @ t, mce = ?m\<rparr>"
    by (simp add: v)
  have c: "map_of (warnings (snd (visit P cfg t r))) t =
           Some ((case map_of (warnings r) t of None \<Rightarrow> [] | Some rs \<Rightarrow> rs) @ [?msg])"
    by (simp add: v report_workunit_def report_warning_def report_topic_scanned_def map_of_append_reason)
  have d: "\<forall>t'. t' \<noteq> t \<longrightarrow> map_of (warnings (snd (visit P cfg t r))) t' = map_of (warnings r) t'"
    by (simp add: visit_warnings_other)
  have f: "failures (snd (visit P cfg t r)) = failures r"
    by (rule visit_report(2))
  have g: "distinct ts \<and> t \<in> set ts \<and> map_of (warnings r) t = None \<and>
          outcome (for_topics P cfg ts r) = Exhausted \<longrightarrow>
            map_of (warnings (report_after (for_topics P cfg ts r))) t = Some [?msg] \<and>
            \<lparr>id' = ''kafka-'' @ t, mce = ?m\<rparr> \<in> set (yielded (for_topics P cfg ts r))"
    using for_topics_fetch_raises[OF assms, of ts r] by auto
  from a b c d f g show ?thesis by blast
qed

theorem fetch_failure_is_a_warning_witness:
  "allowed (topic_patterns demo_config) ''events'' \<and>
   get_latest_version scenario_b (''events'' @ ''-value'') = Inl (Exn ''SchemaRegistryError'' ''Subject not found'') \<and>
   fst (visit scenario_b demo_config ''events'' KafkaSourceReport) = Yield events_workunit \<and>
   map_of (warnings (snd (visit scenario_b demo_config ''events'' KafkaSourceReport))) ''events'' =
     Some [''failed to get schema: Subject not found''] \<and>
   map_of (warnings (report_after (for_topics scenario_b demo_config [''events''] KafkaSourceReport))) ''events'' =
     Some [''failed to get schema: Subject not found''] \<and>
   events_workunit \<in> set (yielded (for_topics scenario_b demo_config [''events''] KafkaSourceReport))"
proof -
  have h1: "allowed (topic_patterns demo_config) ''events''"
    by (simp add: demo_defs allowed_def re_fullmatch_def drop_caret_def atom_of_def)
  have h2: "get_latest_version scenario_b (''events'' @ ''-value'') = Inl (Exn ''SchemaRegistryError'' ''Subject not found'')"
    by (simp add: scenario_b_def demo_defs)
  have h3: "distinct [''events''] \<and> ''events'' \<in> set [''events''] \<and> map_of (warnings KafkaSourceReport) ''events'' = None \<and>
     outcome (for_topics scenario_b demo_config [''events''] KafkaSourceReport) = Exhausted"
    using scenario_b_run by (simp add: get_workunits_def scenario_b_def demo_defs)
  from fetch_failure_is_a_warning[OF h1 h2, of KafkaSourceReport KafkaSourceReport "[''events'']"] h1 h2 h3
  show ?thesis by (simp add: events_workunit_def KafkaSourceReport_def)
qed

section \<open>Schemas that are not Avro\<close>

text \<open>
  C3, as the code has it. For an accepted topic whose registry lookup succeeds with a
  schema type other than \<open>AVRO\<close>, the loop body appends one reason to the warnings of
  that topic and yields a work unit whose record has two aspects: the status aspect and a
  schema aspect with the raw schema string, the hash and an empty field list.
\<close>

theorem unsupported_kind_keeps_schema_aspect:
  assumes "allowed (topic_patterns cfg) t"
    and "get_latest_version P (t @ ''-value'') = Inr reg"
    and "schema_type (schema reg) \<noteq> ''AVRO''"
  shows "fst (visit P cfg t r) =
           Yield \<lparr>id' = ''kafka-'' @ t,
                  mce = \<lparr>proposedSnapshot =
                    \<lparr>urn = ''urn:li:dataset:(urn:li:dataPlatform:kafka,'' @ t @ '',PROD)'',
                     aspects =
                       [Status False,
                        SchemaMetadata
                          \<lparr>schemaName = t, version = 0, hash = str_int (hash' (schema reg)),
                           platform = ''urn:li:dataPlatform:kafka'',
                           platformSchema = \<lparr>documentSchema = schema_str (schema reg)\<rparr>,
                           fields' = [],
                           created = \<lparr>time = time_time P t * 1000, actor = ''urn:li:corpuser:etl''\<rparr>,
                           lastModified = \<lparr>time = time_time P t * 1000, actor = ''urn:li:corpuser:etl''\<rparr>\<rparr>]\<rparr>\<rparr>\<rparr> \<and>
         map_of (warnings (snd (visit P cfg t r))) t =
           Some ((case map_of (warnings r) t of None \<Rightarrow> [] | Some rs \<Rightarrow> rs)
                 @ [''unable to parse kafka schema type '' @ schema_type (schema reg)]) \<and>
         (\<forall>t'. t' \<noteq> t \<longrightarrow> map_of (warnings (snd (visit P cfg t r))) t' = map_of (warnings r) t') \<and>
         failures (snd (visit P cfg t r)) = failures r"
proof -
  note ex = extract_record_unsupported[OF assms(2,3), of "report_topic_scanned t r"]
  note v = visit_yields[OF assms(1) ex]
  have a: "map_of (warnings (snd (visit P cfg t r))) t =
           Some ((case map_of (warnings r) t of None \<Rightarrow> [] | Some rs \<Rightarrow> rs)
                 @ [''unable to parse kafka schema type '' @ schema_type (schema reg)])"
    by (simp add: v report_workunit_def report_warning_def report_topic_scanned_def map_of_append_reason)
  have b: "\<forall>t'. t' \<noteq> t \<longrightarrow> map_of (warnings (snd (visit P cfg t r))) t' = map_of (warnings r) t'"
    by (simp add: visit_warnings_other)
  have c: "failures (snd (visit P cfg t r)) = failures r"
    by (rule visit_report(2))
  from a b c show ?thesis by (simp add: v)
qed

theorem unsupported_kind_keeps_schema_aspect_witness:
  "allowed (topic_patterns demo_config) ''customers'' \<and>
   schema_type (schema \<lparr>schema = \<lparr>schema_str = ''{type: object}'', schema_type = ''JSON'', hash' = - 7\<rparr>\<rparr>) \<noteq> ''AVRO'' \<and>
   fst (visit json_only demo_config ''customers'' KafkaSourceReport) = Yield customers_workunit \<and>
   map_of (warnings (snd (visit json_only demo_config ''customers'' KafkaSourceReport))) ''customers'' =
     Some [''unable to parse kafka schema type JSON'']"
proof -
  have h1: "allowed (topic_patterns demo_config) ''customers''"
    by (simp add: demo_defs allowed_def re_fullmatch_def drop_caret_def atom_of_def)
  have h2: "get_latest_version json_only (''customers'' @ ''-value'') =
      Inr \<lparr>schema = \<lparr>schema_str = ''{type: object}'', schema_type = ''JSON'', hash' = - 7\<rparr>\<rparr>"
    by (simp add: json_only_def demo_defs)
  have h3: "schema_type (schema \<lparr>schema = \<lparr>schema_str = ''{type: object}'', schema_type = ''JSON'', hash' = - 7\<rparr>\<rparr>) \<noteq> ''AVRO''"
    by simp
  from unsupported_kind_keeps_schema_aspect[OF h1 h2 h3, of KafkaSourceReport] h1 h3
  show ?thesis
    by (simp add: customers_workunit_def KafkaSourceReport_def json_only_def demo_defs str_int_minus_7)
qed

theorem unsupported_kind_counterexample:
  "allowed (topic_patterns demo_config) ''customers'' \<and>
   get_latest_version json_only ''customers-value'' =
     Inr \<lparr>schema = \<lparr>schema_str = ''{type: object}'', schema_type = ''JSON'', hash' = - 7\<rparr>\<rparr> \<and>
   yielded (get_workunits json_only demo_source) = [customers_workunit] \<and>
   map is_schema_metadata (aspects (proposedSnapshot (mce customers_workunit))) = [False, True]"
  by (simp add: json_only_def customers_workunit_def demo_defs run_defs str_int_minus_7)

section \<open>Scanned, filtered, yielded\<close>

lemma default_pattern_scenario_a:
  "topic_patterns cfg = default_topic_patterns \<Longrightarrow>
   filter (allowed (topic_patterns cfg)) [''orders'', ''_internal'', ''customers''] = [''orders'', ''customers''] \<and>
   filter (\<lambda>t. \<not> allowed (topic_patterns cfg) t) [''orders'', ''_internal'', ''customers''] = [''_internal'']"
  by (simp add: default_topic_patterns_def allowed_def re_fullmatch_def drop_caret_def atom_of_def)

lemma get_workunits_listed:
  "consumer src = Some c \<Longrightarrow> list_topics P c = Inr ts \<Longrightarrow>
   get_workunits P src = for_topics P (source_config src) ts (report src)"
  by (simp add: get_workunits_def)

lemma outcome_cases:
  "outcome R = Exhausted \<or> (\<exists>e. outcome R = Raised e)"
  by (cases "outcome R") simp_all

lemma extract_record_returns:
  assumes "\<forall>reg. get_latest_version P (t @ ''-value'') = Inr reg \<and> schema_type (schema reg) = ''AVRO'' \<longrightarrow>
             (\<exists>fs. avro_schema_to_mce_fields P (schema_str (schema reg)) = Inr fs)"
  shows "\<exists>m r2. extract_record P t r = (Inr m, r2)"
proof -
  obtain x r2 where ex: "extract_record P t r = (x, r2)" by (cases "extract_record P t r")
  show ?thesis
  proof (cases x)
    case (Inl e)
    with ex have "extract_record P t r = (Inl e, r2)" by simp
    from extract_record_Inl(2)[OF this] obtain reg :: registered_schema where
      "get_latest_version P (t @ ''-value'') = Inr reg" "schema_type (schema reg) = ''AVRO''"
      "avro_schema_to_mce_fields P (schema_str (schema reg)) = Inl e" by blast
    with assms show ?thesis by fastforce
  next
    case (Inr m)
    with ex show ?thesis by blast
  qed
qed

lemma for_topics_exhausts:
  assumes "\<forall>t reg. t \<in> set ts \<and> allowed (topic_patterns cfg) t \<and>
             get_latest_version P (t @ ''-value'') = Inr reg \<and> schema_type (schema reg) = ''AVRO'' \<longrightarrow>
             (\<exists>fs. avro_schema_to_mce_fields P (schema_str (schema reg)) = Inr fs)"
  shows "outcome (for_topics P cfg ts r) = Exhausted"
proof (rule ccontr)
  assume "outcome (for_topics P cfg ts r) \<noteq> Exhausted"
  with outcome_cases[of "for_topics P cfg ts r"] obtain e where
    "outcome (for_topics P cfg ts r) = Raised e" by blast
  from for_topics_raised[OF this] obtain pre t post and reg :: registered_schema where
    "ts = pre @ t # post" "allowed (topic_patterns cfg) t"
    "get_latest_version P (t @ ''-value'') = Inr reg" "schema_type (schema reg) = ''AVRO''"
    "avro_schema_to_mce_fields P (schema_str (schema reg)) = Inl e" by blast
  with assms show False by fastforce
qed

text \<open>
  C1, as the code has it by design. The loop body increments the scanned counter by one
  for the topic it is given. A topic the pattern rejects is appended to \<open>filtered\<close> and
  yields nothing. A topic the pattern accepts leaves \<open>filtered\<close> alone, and when
  \<open>_extract_record\<close> returns a record for it, exactly one work unit is yielded, with
  the id \<open>kafka-t\<close> and that record; \<open>_extract_record\<close> returns a record whenever the
  Avro normalizer returns for the topic's schema, whatever the registry lookup does. For
  the topics \<open>orders\<close>, \<open>_internal\<close>, \<open>customers\<close> under the default pattern, when
  the normalizer returns for the schemas of \<open>orders\<close> and \<open>customers\<close>, the run ends
  normally, yields the work units of \<open>orders\<close> and \<open>customers\<close> in this order, and
  appends \<open>_internal\<close> to \<open>filtered\<close>.
\<close>

theorem visit_scans_then_drops_or_yields:
  "topics_scanned (snd (visit P cfg t r)) = topics_scanned r + 1 \<and>
   (\<not> allowed (topic_patterns cfg) t \<longrightarrow>
      fst (visit P cfg t r) = Dropped \<and> filtered (snd (visit P cfg t r)) = filtered r @ [t]) \<and>
   (allowed (topic_patterns cfg) t \<longrightarrow>
      filtered (snd (visit P cfg t r)) = filtered r \<and>
      (\<forall>m r2. extract_record P t (report_topic_scanned t r) = (Inr m, r2) \<longrightarrow>
         visit P cfg t r =
           (Yield \<lparr>id' = ''kafka-'' @ t, mce = m\<rparr>,
            report_workunit \<lparr>id' = ''kafka-'' @ t, mce = m\<rparr> r2)) \<and>
      ((\<forall>reg. get_latest_version P (t @ ''-value'') = Inr reg \<and> schema_type (schema reg) = ''AVRO'' \<longrightarrow>
          (\<exists>fs. avro_schema_to_mce_fields P (schema_str (schema reg)) = Inr fs)) \<longrightarrow>
       (\<exists>m. fst (visit P cfg t r) = Yield \<lparr>id' = ''kafka-'' @ t, mce = m\<rparr> \<and>
            fst (extract_record P t (report_topic_scanned t r)) = Inr m))) \<and>
   (consumer src = Some c \<and> list_topics P c = Inr [''orders'', ''_internal'', ''customers''] \<and>
    topic_patterns (source_config src) = default_topic_patterns \<and>
    (\<forall>t reg. t \<in> set [''orders'', ''customers''] \<and>
       get_latest_version P (t @ ''-value'') = Inr reg \<and> schema_type (schema reg) = ''AVRO'' \<longrightarrow>
       (\<exists>fs. avro_schema_to_mce_fields P (schema_str (schema reg)) = Inr fs)) \<longrightarrow>
      outcome (get_workunits P src) = Exhausted \<and>
      map id' (yielded (get_workunits P src)) = [''kafka-orders'', ''kafka-customers''] \<and>
      filtered (report_after (get_workunits P src)) = filtered (report src) @ [''_internal''] \<and>
      topics_scanned (report_after (get_workunits P src)) = topics_scanned (report src) + 3)"
proof (intro conjI impI allI)
  show "topics_scanned (snd (visit P cfg t r)) = topics_scanned r + 1"
    by (rule visit_report(1))
next
  assume "\<not> allowed (topic_patterns cfg) t"
  then show "fst (visit P cfg t r) = Dropped" by (simp add: visit_rejected)
next
  assume "\<not> allowed (topic_patterns cfg) t"
  then show "filtered (snd (visit P cfg t r)) = filtered r @ [t]" by (simp add: visit_report(3))
next
  assume "allowed (topic_patterns cfg) t"
  then show "filtered (snd (visit P cfg t r)) = filtered r" by (simp add: visit_report(3))
next
  fix m r2
  assume "allowed (topic_patterns cfg) t"
    and "extract_record P t (report_topic_scanned t r) = (Inr m, r2)"
  then show "visit P cfg t r =
           (Yield \<lparr>id' = ''kafka-'' @ t, mce = m\<rparr>,
            report_workunit \<lparr>id' = ''kafka-'' @ t, mce = m\<rparr> r2)"
    by (rule visit_yields)
next
  assume al: "allowed (topic_patterns cfg) t"
    and ok: "\<forall>reg. get_latest_version P (t @ ''-value'') = Inr reg \<and> schema_type (schema reg) = ''AVRO'' \<longrightarrow>
          (\<exists>fs. avro_schema_to_mce_fields P (schema_str (schema reg)) = Inr fs)"
  from extract_record_returns[OF ok, of "report_topic_scanned t r"] obtain m r2 where
    ex: "extract_record P t (report_topic_scanned t r) = (Inr m, r2)" by blast
  from visit_yields[OF al ex] ex
  show "\<exists>m. fst (visit P cfg t r) = Yield \<lparr>id' = ''kafka-'' @ t, mce = m\<rparr> \<and>
            fst (extract_record P t (report_topic_scanned t r)) = Inr m"
    by simp
next
  assume h: "consumer src = Some c \<and> list_topics P c = Inr [''orders'', ''_internal'', ''customers''] \<and>
    topic_patterns (source_config src) = default_topic_patterns \<and>
    (\<forall>t reg. t \<in> set [''orders'', ''customers''] \<and>
       get_latest_version P (t @ ''-value'') = Inr reg \<and> schema_type (schema reg) = ''AVRO'' \<longrightarrow>
       (\<exists>fs. avro_schema_to_mce_fields P (schema_str (schema reg)) = Inr fs))"
  let ?ts = "[''orders'', ''_internal'', ''customers'']"
  from h have g: "get_workunits P src = for_topics P (source_config src) ?ts (report src)"
    by (simp add: get_workunits_listed)
  from default_pattern_scenario_a[of "source_config src"] h
  have fa: "filter (allowed (topic_patterns (source_config src))) ?ts = [''orders'', ''customers'']"
    and fr: "filter (\<lambda>t. \<not> allowed (topic_patterns (source_config src)) t) ?ts = [''_internal'']"
    by simp_all
  have acc: "\<And>t. t \<in> set ?ts \<Longrightarrow> allowed (topic_patterns (source_config src)) t \<Longrightarrow>
      t \<in> set [''orders'', ''customers'']"
  proof -
    fix t assume "t \<in> set ?ts" and "allowed (topic_patterns (source_config src)) t"
    then have "t \<in> set (filter (allowed (topic_patterns (source_config src))) ?ts)"
      by (simp only: set_filter mem_Collect_eq)
    with fa show "t \<in> set [''orders'', ''customers'']" by simp
  qed
  have "\<forall>t reg. t \<in> set ?ts \<and> allowed (topic_patterns (source_config src)) t \<and>
             get_latest_version P (t @ ''-value'') = Inr reg \<and> schema_type (schema reg) = ''AVRO'' \<longrightarrow>
             (\<exists>fs. avro_schema_to_mce_fields P (schema_str (schema reg)) = Inr fs)"
    using h acc by blast
  from for_topics_exhausts[OF this, of "report src"]
  have ex: "outcome (for_topics P (source_config src) ?ts (report src)) = Exhausted" .
  with g show "outcome (get_workunits P src) = Exhausted" by simp
  from for_topics_exhausted[OF ex] fa fr g
  show "map id' (yielded (get_workunits P src)) = [''kafka-orders'', ''kafka-customers'']"
    and "filtered (report_after (get_workunits P src)) = filtered (report src) @ [''_internal'']"
    and "topics_scanned (report_after (get_workunits P src)) = topics_scanned (report src) + 3"
    by simp_all
qed

theorem visit_scans_then_drops_or_yields_witness:
  "consumer demo_source = Some False \<and>
   list_topics scenario_a False = Inr [''orders'', ''_internal'', ''customers''] \<and>
   topic_patterns (source_config demo_source) = default_topic_patterns \<and>
   avro_schema_to_mce_fields scenario_a ''{type: record, name: Order}'' = fields_ok ''{type: record, name: Order}'' \<and>
   \<not> allowed (topic_patterns demo_config) ''_internal'' \<and>
   allowed (topic_patterns demo_config) ''orders'' \<and>
   fst (visit scenario_a demo_config ''_internal'' KafkaSourceReport) = Dropped \<and>
   filtered (snd (visit scenario_a demo_config ''_internal'' KafkaSourceReport)) = [''_internal''] \<and>
   topics_scanned (snd (visit scenario_a demo_config ''_internal'' KafkaSourceReport)) = 1 \<and>
   fst (visit scenario_a demo_config ''orders'' KafkaSourceReport) = Yield orders_workunit \<and>
   filtered (snd (visit scenario_a demo_config ''orders'' KafkaSourceReport)) = [] \<and>
   outcome (get_workunits scenario_a demo_source) = Exhausted \<and>
   map id' (yielded (get_workunits scenario_a demo_source)) = [''kafka-orders'', ''kafka-customers''] \<and>
   filtered (report_after (get_workunits scenario_a demo_source)) = [''_internal''] \<and>
   topics_scanned (report_after (get_workunits scenario_a demo_source)) = 3"
proof -
  have h1: "consumer demo_source = Some False"
    and h2: "list_topics scenario_a False = Inr [''orders'', ''_internal'', ''customers'']"
    and h3: "topic_patterns (source_config demo_source) = default_topic_patterns"
    and h4: "avro_schema_to_mce_fields scenario_a ''{type: record, name: Order}'' = fields_ok ''{type: record, name: Order}''"
    by (simp_all add: scenario_a_def demo_defs)
  have tot: "\<And>s. \<exists>fs. avro_schema_to_mce_fields scenario_a s = Inr fs"
    by (simp add: scenario_a_def kafka_platform_def fields_ok_def)
  have n: "\<not> allowed (topic_patterns demo_config) ''_internal''"
    and a: "allowed (topic_patterns demo_config) ''orders''"
    by (simp_all add: demo_defs allowed_def re_fullmatch_def drop_caret_def atom_of_def)
  note thm1 = visit_scans_then_drops_or_yields[of scenario_a demo_config "''_internal''" KafkaSourceReport demo_source False]
  note thm2 = visit_scans_then_drops_or_yields[of scenario_a demo_config "''orders''" KafkaSourceReport demo_source False]
  from thm1 n
  have p1: "fst (visit scenario_a demo_config ''_internal'' KafkaSourceReport) = Dropped"
    and p2: "filtered (snd (visit scenario_a demo_config ''_internal'' KafkaSourceReport)) = [''_internal'']"
    and p3: "topics_scanned (snd (visit scenario_a demo_config ''_internal'' KafkaSourceReport)) = 1"
    by (simp_all add: KafkaSourceReport_def)
  from thm1 h1 h2 h3 tot
  have q: "outcome (get_workunits scenario_a demo_source) = Exhausted \<and>
      map id' (yielded (get_workunits scenario_a demo_source)) = [''kafka-orders'', ''kafka-customers''] \<and>
      filtered (report_after (get_workunits scenario_a demo_source)) = filtered (report demo_source) @ [''_internal''] \<and>
      topics_scanned (report_after (get_workunits scenario_a demo_source)) = topics_scanned (report demo_source) + 3"
    by blast
  then have q': "outcome (get_workunits scenario_a demo_source) = Exhausted \<and>
      map id' (yielded (get_workunits scenario_a demo_source)) = [''kafka-orders'', ''kafka-customers''] \<and>
      filtered (report_after (get_workunits scenario_a demo_source)) = [''_internal''] \<and>
      topics_scanned (report_after (get_workunits scenario_a demo_source)) = 3"
    by (simp add: demo_source_def KafkaSourceReport_def)
  from thm2 a tot obtain m where
    y: "fst (visit scenario_a demo_config ''orders'' KafkaSourceReport) = Yield \<lparr>id' = ''kafka-'' @ ''orders'', mce = m\<rparr>"
    and e: "fst (extract_record scenario_a ''orders'' (report_topic_scanned ''orders'' KafkaSourceReport)) = Inr m"
    by blast
  have "fst (extract_record scenario_a ''orders'' (report_topic_scanned ''orders'' KafkaSourceReport)) = Inr (mce orders_workunit)"
    by (simp add: scenario_a_def orders_workunit_def demo_defs extract_record_def Let_def str_int_42)
  with e have "m = mce orders_workunit" by simp
  with y have p4: "fst (visit scenario_a demo_config ''orders'' KafkaSourceReport) = Yield orders_workunit"
    by (simp add: orders_workunit_def)
  from thm2 a
  have p5: "filtered (snd (visit scenario_a demo_config ''orders'' KafkaSourceReport)) = []"
    by (simp add: KafkaSourceReport_def)
  from h1 h2 h3 h4 n a p1 p2 p3 p4 p5 q' show ?thesis by blast
qed

theorem accepted_topic_counterexample:
  "list_topics bad_avro False = Inr [''orders'', ''customers''] \<and>
   allowed (topic_patterns demo_config) ''orders'' \<and>
   allowed (topic_patterns demo_config) ''customers'' \<and>
   yielded (get_workunits bad_avro demo_source) = [] \<and>
   topics_scanned (report_after (get_workunits bad_avro demo_source)) = 1 \<and>
   filtered (report_after (get_workunits bad_avro demo_source)) = []"
  by (simp add: bad_avro_run)
    (simp add: bad_avro_def demo_defs allowed_def re_fullmatch_def drop_caret_def atom_of_def)

text \<open>
  C9. After a run of \<open>get_workunits\<close> from a fresh report that ends normally, the scanned
  counter is the number of topics, and it is the length of \<open>filtered\<close> plus the number
  of work units yielded: \<open>filtered\<close> holds the topics the pattern rejects and the work
  units are those of the topics it accepts, in order, so every topic is in exactly one of
  the two. With no topics the run is empty, ends normally and leaves the fresh report.
\<close>

theorem scanned_is_filtered_plus_yielded:
  assumes "report src = KafkaSourceReport"
    and "consumer src = Some c"
    and "list_topics P c = Inr ts"
  shows "(outcome (get_workunits P src) = Exhausted \<longrightarrow>
           topics_scanned (report_after (get_workunits P src)) =
             int (length (filtered (report_after (get_workunits P src))))
             + int (length (yielded (get_workunits P src))) \<and>
           topics_scanned (report_after (get_workunits P src)) = int (length ts) \<and>
           filtered (report_after (get_workunits P src)) =
             filter (\<lambda>t. \<not> allowed (topic_patterns (source_config src)) t) ts \<and>
           map id' (yielded (get_workunits P src)) =
             map (\<lambda>t. ''kafka-'' @ t) (filter (allowed (topic_patterns (source_config src))) ts) \<and>
           (\<forall>t \<in> set ts.
              (t \<in> set (filtered (report_after (get_workunits P src)))) \<noteq>
              (''kafka-'' @ t \<in> set (map id' (yielded (get_workunits P src)))))) \<and>
         (ts = [] \<longrightarrow>
           get_workunits P src =
             \<lparr>yielded = [], report_after = KafkaSourceReport, outcome = Exhausted\<rparr> \<and>
           topics_scanned KafkaSourceReport = 0 \<and> filtered KafkaSourceReport = [])"
proof (intro conjI impI)
  assume ex: "outcome (get_workunits P src) = Exhausted"
  let ?R = "get_workunits P src"
  let ?al = "allowed (topic_patterns (source_config src))"
  have g: "?R = for_topics P (source_config src) ts (report src)"
    by (rule get_workunits_listed[OF assms(2,3)])
  from ex g have "outcome (for_topics P (source_config src) ts (report src)) = Exhausted" by simp
  from for_topics_exhausted[OF this] g assms(1)
  have sc: "topics_scanned (report_after ?R) = int (length ts)"
    and fl: "filtered (report_after ?R) = filter (\<lambda>t. \<not> ?al t) ts"
    and ids: "map id' (yielded ?R) = map (\<lambda>t. ''kafka-'' @ t) (filter ?al ts)"
    by (simp_all add: KafkaSourceReport_def)
  show "topics_scanned (report_after ?R) = int (length ts)" by (rule sc)
  show "filtered (report_after ?R) = filter (\<lambda>t. \<not> ?al t) ts" by (rule fl)
  show "map id' (yielded ?R) = map (\<lambda>t. ''kafka-'' @ t) (filter ?al ts)" by (rule ids)
  have "length (yielded ?R) = length (map id' (yielded ?R))" by simp
  also have "\<dots> = length (filter ?al ts)" by (simp only: ids length_map)
  finally have ly: "length (yielded ?R) = length (filter ?al ts)" .
  have "length (filter (\<lambda>t. \<not> ?al t) ts) + length (filter ?al ts) = length ts"
    using sum_length_filter_compl[of ?al ts] by simp
  with sc fl ly
  show "topics_scanned (report_after ?R) =
      int (length (filtered (report_after ?R))) + int (length (yielded ?R))"
    by simp
  show "\<forall>t \<in> set ts. (t \<in> set (filtered (report_after ?R))) \<noteq>
              (''kafka-'' @ t \<in> set (map id' (yielded ?R)))"
    by (auto simp: fl ids)
next
  assume "ts = []"
  with assms show "get_workunits P src =
      \<lparr>yielded = [], report_after = KafkaSourceReport, outcome = Exhausted\<rparr>"
    by (simp add: get_workunits_def)
next
  show "topics_scanned KafkaSourceReport = 0" by (simp add: KafkaSourceReport_def)
next
  show "filtered KafkaSourceReport = []" by (simp add: KafkaSourceReport_def)
qed

theorem scanned_is_filtered_plus_yielded_witness:
  "report demo_source = KafkaSourceReport \<and> consumer demo_source = Some False \<and>
   list_topics scenario_a False = Inr [''orders'', ''_internal'', ''customers''] \<and>
   list_topics no_topics False = Inr [] \<and>
   outcome (get_workunits scenario_a demo_source) = Exhausted \<and>
   topics_scanned (report_after (get_workunits scenario_a demo_source)) =
     int (length (filtered (report_after (get_workunits scenario_a demo_source))))
     + int (length (yielded (get_workunits scenario_a demo_source))) \<and>
   topics_scanned (report_after (get_workunits scenario_a demo_source)) = 3 \<and>
   get_workunits no_topics demo_source =
     \<lparr>yielded = [], report_after = KafkaSourceReport, outcome = Exhausted\<rparr>"
proof -
  have h1: "report demo_source = KafkaSourceReport" and h2: "consumer demo_source = Some False"
    by (simp_all add: demo_source_def)
  have h3: "list_topics scenario_a False = Inr [''orders'', ''_internal'', ''customers'']"
    and h4: "list_topics no_topics False = Inr []"
    by (simp_all add: scenario_a_def no_topics_def kafka_platform_def)
  have h5: "outcome (get_workunits scenario_a demo_source) = Exhausted"
    by (simp add: scenario_a_run)
  from scanned_is_filtered_plus_yielded[OF h1 h2 h3] h5
  have ab: "topics_scanned (report_after (get_workunits scenario_a demo_source)) =
     int (length (filtered (report_after (get_workunits scenario_a demo_source))))
     + int (length (yielded (get_workunits scenario_a demo_source))) \<and>
     topics_scanned (report_after (get_workunits scenario_a demo_source)) =
       int (length [''orders'', ''_internal'', ''customers''])"
    by blast
  then have a: "topics_scanned (report_after (get_workunits scenario_a demo_source)) =
     int (length (filtered (report_after (get_workunits scenario_a demo_source))))
     + int (length (yielded (get_workunits scenario_a demo_source)))"
    and b: "topics_scanned (report_after (get_workunits scenario_a demo_source)) = 3"
    by simp_all
  from scanned_is_filtered_plus_yielded[OF h1 h2 h4]
  have c: "get_workunits no_topics demo_source =
     \<lparr>yielded = [], report_after = KafkaSourceReport, outcome = Exhausted\<rparr>"
    by simp
  from h1 h2 h3 h4 h5 a b c show ?thesis by simp
qed

section \<open>Exceptions that leave the generator\<close>

lemma for_topics_stops:
  "outcome (for_topics P cfg pre r) = Exhausted \<Longrightarrow>
   visit P cfg t (report_after (for_topics P cfg pre r)) = (Throw e, r') \<Longrightarrow>
   for_topics P cfg (pre @ t # post) r =
     \<lparr>yielded = yielded (for_topics P cfg pre r), report_after = r', outcome = Raised e\<rparr>"
proof (induction pre arbitrary: r)
  case Nil
  then show ?case by simp
next
  case (Cons u pre)
  obtain s r1 where v: "visit P cfg u r = (s, r1)" by (cases "visit P cfg u r")
  from outcome_rest[OF Cons.prems(1) v]
  have ex: "outcome (for_topics P cfg pre r1) = Exhausted" and nt: "\<forall>e. s \<noteq> Throw e" by simp_all
  show ?case
  proof (cases s)
    case Dropped
    with v Cons.prems(2) have "visit P cfg t (report_after (for_topics P cfg pre r1)) = (Throw e, r')"
      by simp
    from Cons.IH[OF ex this] v Dropped show ?thesis by simp
  next
    case (Yield wu)
    with v Cons.prems(2) have "visit P cfg t (report_after (for_topics P cfg pre r1)) = (Throw e, r')"
      by (simp add: Let_def)
    from Cons.IH[OF ex this] v Yield show ?thesis by (simp add: Let_def)
  next
    case (Throw e')
    with nt show ?thesis by simp
  qed
qed

text \<open>
  C4, at the input where the code departs from it. The topics before \<open>t\<close> are visited
  without an exception; \<open>t\<close> is accepted, its registry lookup returns an Avro schema and
  the Avro normalizer raises \<open>e\<close> on it. Then \<open>e\<close> leaves \<open>get_workunits\<close>: the run ends
  with \<open>e\<close> after the work units of the topics before \<open>t\<close>, the scanned counter has
  counted those topics and \<open>t\<close>, so the topics after \<open>t\<close> are not visited, and
  \<open>failures\<close> is what it was before the run, with no entry added for \<open>t\<close>.
\<close>

theorem normalizer_exception_leaves_get_workunits:
  assumes "consumer src = Some c"
    and "list_topics P c = Inr (pre @ t # post)"
    and "outcome (for_topics P (source_config src) pre (report src)) = Exhausted"
    and "allowed (topic_patterns (source_config src)) t"
    and "get_latest_version P (t @ ''-value'') = Inr reg"
    and "schema_type (schema reg) = ''AVRO''"
    and "avro_schema_to_mce_fields P (schema_str (schema reg)) = Inl e"
  shows "get_workunits P src =
           \<lparr>yielded = yielded (for_topics P (source_config src) pre (report src)),
            report_after = report_topic_scanned t (report_after (for_topics P (source_config src) pre (report src))),
            outcome = Raised e\<rparr> \<and>
         failures (report_after (get_workunits P src)) = failures (report src) \<and>
         map_of (failures (report_after (get_workunits P src))) t = map_of (failures (report src)) t \<and>
         topics_scanned (report_after (get_workunits P src)) = topics_scanned (report src) + int (length pre) + 1 \<and>
         map id' (yielded (get_workunits P src)) =
           map (\<lambda>u. ''kafka-'' @ u) (filter (allowed (topic_patterns (source_config src))) pre)"
proof -
  let ?cfg = "source_config src"
  let ?R = "for_topics P ?cfg pre (report src)"
  have g: "get_workunits P src = for_topics P ?cfg (pre @ t # post) (report src)"
    by (rule get_workunits_listed[OF assms(1,2)])
  have ex: "extract_record P t (report_topic_scanned t (report_after ?R)) =
      (Inl e, report_topic_scanned t (report_after ?R))"
    by (rule extract_record_avro_raises[OF assms(5,6,7)])
  have v: "visit P ?cfg t (report_after ?R) = (Throw e, report_topic_scanned t (report_after ?R))"
    by (rule visit_raises[OF assms(4) ex])
  from for_topics_stops[OF assms(3) v, of post] g
  have run: "get_workunits P src =
      \<lparr>yielded = yielded ?R, report_after = report_topic_scanned t (report_after ?R), outcome = Raised e\<rparr>"
    by simp
  from for_topics_exhausted[OF assms(3)]
  have sc: "topics_scanned (report_after ?R) = topics_scanned (report src) + int (length pre)"
    and ids: "map id' (yielded ?R) = map (\<lambda>u. ''kafka-'' @ u) (filter (allowed (topic_patterns ?cfg)) pre)"
    by simp_all
  have fl: "failures (report_after (get_workunits P src)) = failures (report src)"
    by (simp add: g for_topics_failures)
  have a: "topics_scanned (report_after (get_workunits P src)) = topics_scanned (report src) + int (length pre) + 1"
    by (simp add: run sc report_topic_scanned_def)
  have b: "map id' (yielded (get_workunits P src)) =
           map (\<lambda>u. ''kafka-'' @ u) (filter (allowed (topic_patterns ?cfg)) pre)"
    by (simp only: run ids run.simps)
  from run fl a b show ?thesis by simp
qed

theorem normalizer_exception_leaves_get_workunits_witness:
  "consumer demo_source = Some False \<and>
   list_topics bad_avro False = Inr ([] @ ''orders'' # [''customers'']) \<and>
   outcome (for_topics bad_avro (source_config demo_source) [] (report demo_source)) = Exhausted \<and>
   allowed (topic_patterns (source_config demo_source)) ''orders'' \<and>
   get_latest_version bad_avro (''orders'' @ ''-value'') =
     Inr \<lparr>schema = \<lparr>schema_str = ''{type: record, name: Order}'', schema_type = ''AVRO'', hash' = 42\<rparr>\<rparr> \<and>
   avro_schema_to_mce_fields bad_avro ''{type: record, name: Order}'' =
     Inl (Exn ''SchemaParseException'' ''not a record schema'') \<and>
   get_workunits bad_avro demo_source =
     \<lparr>yielded = [],
      report_after = \<lparr>workunits_produced = 0, topics_scanned = 1, warnings = [], failures = [], filtered = []\<rparr>,
      outcome = Raised (Exn ''SchemaParseException'' ''not a record schema'')\<rparr> \<and>
   failures (report_after (get_workunits bad_avro demo_source)) = [] \<and>
   map_of (failures (report_after (get_workunits bad_avro demo_source))) ''orders'' = None \<and>
   topics_scanned (report_after (get_workunits bad_avro demo_source)) = 1"
proof -
  let ?reg = "\<lparr>schema = \<lparr>schema_str = ''{type: record, name: Order}'', schema_type = ''AVRO'', hash' = 42\<rparr>\<rparr>"
  have h1: "consumer demo_source = Some False" by (simp add: demo_source_def)
  have h2: "list_topics bad_avro False = Inr ([] @ ''orders'' # [''customers''])"
    by (simp add: bad_avro_def kafka_platform_def)
  have h3: "outcome (for_topics bad_avro (source_config demo_source) [] (report demo_source)) = Exhausted"
    by simp
  have h4: "allowed (topic_patterns (source_config demo_source)) ''orders''"
    by (simp add: demo_defs allowed_def re_fullmatch_def drop_caret_def atom_of_def)
  have h5: "get_latest_version bad_avro (''orders'' @ ''-value'') = Inr ?reg"
    by (simp add: bad_avro_def demo_defs)
  have h6: "schema_type (schema ?reg) = ''AVRO''" by simp
  have h7: "avro_schema_to_mce_fields bad_avro (schema_str (schema ?reg)) =
      Inl (Exn ''SchemaParseException'' ''not a record schema'')"
    by (simp add: bad_avro_def kafka_platform_def fields_raise_def)
  note t = normalizer_exception_leaves_get_workunits[OF h1 h2 h3 h4 h5 h6 h7]
  from t have r0: "get_workunits bad_avro demo_source =
     \<lparr>yielded = yielded (for_topics bad_avro (source_config demo_source) [] (report demo_source)),
      report_after = report_topic_scanned ''orders''
        (report_after (for_topics bad_avro (source_config demo_source) [] (report demo_source))),
      outcome = Raised (Exn ''SchemaParseException'' ''not a record schema'')\<rparr>"
    by blast
  have rhs: "\<lparr>yielded = yielded (for_topics bad_avro (source_config demo_source) [] (report demo_source)),
      report_after = report_topic_scanned ''orders''
        (report_after (for_topics bad_avro (source_config demo_source) [] (report demo_source))),
      outcome = Raised (Exn ''SchemaParseException'' ''not a record schema'')\<rparr> =
     \<lparr>yielded = [],
      report_after = \<lparr>workunits_produced = 0, topics_scanned = 1, warnings = [], failures = [], filtered = []\<rparr>,
      outcome = Raised (Exn ''SchemaParseException'' ''not a record schema'')\<rparr>"
    by (simp add: demo_source_def KafkaSourceReport_def report_topic_scanned_def)
  from r0 rhs have run: "get_workunits bad_avro demo_source =
     \<lparr>yielded = [],
      report_after = \<lparr>workunits_produced = 0, topics_scanned = 1, warnings = [], failures = [], filtered = []\<rparr>,
      outcome = Raised (Exn ''SchemaParseException'' ''not a record schema'')\<rparr>"
    by (rule trans)
  have f: "failures (report_after (get_workunits bad_avro demo_source)) = []"
    and m: "map_of (failures (report_after (get_workunits bad_avro demo_source))) ''orders'' = None"
    and s: "topics_scanned (report_after (get_workunits bad_avro demo_source)) = 1"
    by (simp_all add: run)
  from h7 have h7': "avro_schema_to_mce_fields bad_avro ''{type: record, name: Order}'' =
     Inl (Exn ''SchemaParseException'' ''not a record schema'')" by simp
  from h1 h2 h3 h4 h5 h7' run f m s show ?thesis by blast
qed

section \<open>Two runs on the same responses\<close>

lemma visit_same_responses:
  assumes "get_latest_version P1 = get_latest_version P2"
    and "avro_schema_to_mce_fields P1 = avro_schema_to_mce_fields P2"
  shows "snd (visit P1 cfg t r) = snd (visit P2 cfg t r) \<and>
    (case (fst (visit P1 cfg t r), fst (visit P2 cfg t r)) of
       (Dropped, Dropped) \<Rightarrow> True
     | (Throw e1, Throw e2) \<Rightarrow> e1 = e2
     | (Yield w1, Yield w2) \<Rightarrow> id' w1 = id' w2
     | _ \<Rightarrow> False)"
  using assms
  by (auto simp: visit_def extract_record_def Let_def report_workunit_def split: sum.splits)

lemma for_topics_same_responses:
  assumes "get_latest_version P1 = get_latest_version P2"
    and "avro_schema_to_mce_fields P1 = avro_schema_to_mce_fields P2"
  shows "map id' (yielded (for_topics P1 cfg ts r)) = map id' (yielded (for_topics P2 cfg ts r)) \<and>
         report_after (for_topics P1 cfg ts r) = report_after (for_topics P2 cfg ts r) \<and>
         outcome (for_topics P1 cfg ts r) = outcome (for_topics P2 cfg ts r)"
proof (induction ts arbitrary: r)
  case Nil
  show ?case by simp
next
  case (Cons t ts)
  obtain s1 r1 where v1: "visit P1 cfg t r = (s1, r1)" by (cases "visit P1 cfg t r")
  obtain s2 r2 where v2: "visit P2 cfg t r = (s2, r2)" by (cases "visit P2 cfg t r")
  from visit_same_responses[OF assms, of cfg t r] v1 v2
  have rr: "r1 = r2"
    and ss: "(case (s1, s2) of
       (Dropped, Dropped) \<Rightarrow> True
     | (Throw e1, Throw e2) \<Rightarrow> e1 = e2
     | (Yield w1, Yield w2) \<Rightarrow> id' w1 = id' w2
     | _ \<Rightarrow> False)"
    by simp_all
  from ss rr v1 v2 Cons.IH[of r2] show ?case
    by (cases s1; cases s2) (simp_all add: Let_def)
qed

text \<open>
  C7. Two sources, each freshly constructed with the same configuration on its own
  platform, are run. The platforms may differ in their consumers and their clocks; they
  give the same topic list, the same registry lookups and the same normalizer. Then the two
  runs yield work units with the same ids in the same order, leave the same report (so the
  same scanned count, filtered list, warning keys and failure keys) and end the same way.
\<close>

theorem same_responses_same_run:
  assumes "init P1 cfg = Inr s1"
    and "init P2 cfg = Inr s2"
    and "consumer s1 = Some c1"
    and "consumer s2 = Some c2"
    and "list_topics P1 c1 = list_topics P2 c2"
    and "get_latest_version P1 = get_latest_version P2"
    and "avro_schema_to_mce_fields P1 = avro_schema_to_mce_fields P2"
  shows "map id' (yielded (get_workunits P1 s1)) = map id' (yielded (get_workunits P2 s2)) \<and>
         set (map id' (yielded (get_workunits P1 s1))) = set (map id' (yielded (get_workunits P2 s2))) \<and>
         topics_scanned (report_after (get_workunits P1 s1)) = topics_scanned (report_after (get_workunits P2 s2)) \<and>
         filtered (report_after (get_workunits P1 s1)) = filtered (report_after (get_workunits P2 s2)) \<and>
         map fst (warnings (report_after (get_workunits P1 s1))) = map fst (warnings (report_after (get_workunits P2 s2))) \<and>
         map fst (failures (report_after (get_workunits P1 s1))) = map fst (failures (report_after (get_workunits P2 s2))) \<and>
         report_after (get_workunits P1 s1) = report_after (get_workunits P2 s2) \<and>
         outcome (get_workunits P1 s1) = outcome (get_workunits P2 s2)"
proof -
  from assms(1) have f1: "source_config s1 = cfg" "report s1 = KafkaSourceReport"
    by (auto simp: init_def split: sum.splits)
  from assms(2) have f2: "source_config s2 = cfg" "report s2 = KafkaSourceReport"
    by (auto simp: init_def split: sum.splits)
  have main: "map id' (yielded (get_workunits P1 s1)) = map id' (yielded (get_workunits P2 s2)) \<and>
         report_after (get_workunits P1 s1) = report_after (get_workunits P2 s2) \<and>
         outcome (get_workunits P1 s1) = outcome (get_workunits P2 s2)"
  proof (cases "list_topics P2 c2")
    case (Inl e)
    with assms(3,4,5) f1 f2 show ?thesis by (simp add: get_workunits_def)
  next
    case (Inr ts)
    with assms(5) have l1: "list_topics P1 c1 = Inr ts" by simp
    from get_workunits_listed[OF assms(3) l1] get_workunits_listed[OF assms(4) Inr] f1 f2
      for_topics_same_responses[OF assms(6,7), of cfg ts KafkaSourceReport]
    show ?thesis by simp
  qed
  then show ?thesis by simp
qed

theorem same_responses_same_run_witness:
  "init scenario_a demo_config = Inr demo_source \<and>
   init scenario_a_later demo_config = Inr demo_source \<and>
   consumer demo_source = Some False \<and>
   list_topics scenario_a False = list_topics scenario_a_later False \<and>
   get_latest_version scenario_a = get_latest_version scenario_a_later \<and>
   avro_schema_to_mce_fields scenario_a = avro_schema_to_mce_fields scenario_a_later \<and>
   time_time scenario_a ''orders'' \<noteq> time_time scenario_a_later ''orders'' \<and>
   map id' (yielded (get_workunits scenario_a_later demo_source)) = [''kafka-orders'', ''kafka-customers''] \<and>
   report_after (get_workunits scenario_a_later demo_source) =
     \<lparr>workunits_produced = 2, topics_scanned = 3,
      warnings = [(''customers'', [''unable to parse kafka schema type JSON''])],
      failures = [], filtered = [''_internal'']\<rparr> \<and>
   outcome (get_workunits scenario_a_later demo_source) = Exhausted"
proof -
  have h1: "init scenario_a demo_config = Inr demo_source"
    and h2: "init scenario_a_later demo_config = Inr demo_source"
    by (simp_all add: init_def scenario_a_def scenario_a_later_def kafka_platform_def demo_source_def)
  have h3: "consumer demo_source = Some False" by (simp add: demo_source_def)
  have h5: "list_topics scenario_a False = list_topics scenario_a_later False"
    and h6: "get_latest_version scenario_a = get_latest_version scenario_a_later"
    and h7: "avro_schema_to_mce_fields scenario_a = avro_schema_to_mce_fields scenario_a_later"
    and h8: "time_time scenario_a ''orders'' \<noteq> time_time scenario_a_later ''orders''"
    by (simp_all add: scenario_a_def scenario_a_later_def kafka_platform_def clock0_def clock1_def)
  note run = same_responses_same_run[OF h1 h2 h3 h3 h5 h6 h7]
  from run have "map id' (yielded (get_workunits scenario_a_later demo_source)) =
      map id' (yielded (get_workunits scenario_a demo_source))" by simp
  then have a: "map id' (yielded (get_workunits scenario_a_later demo_source)) =
      [''kafka-orders'', ''kafka-customers'']"
    by (simp add: scenario_a_run orders_workunit_def customers_workunit_def)
  from run have "report_after (get_workunits scenario_a_later demo_source) =
      report_after (get_workunits scenario_a demo_source)" by simp
  then have b: "report_after (get_workunits scenario_a_later demo_source) =
     \<lparr>workunits_produced = 2, topics_scanned = 3,
      warnings = [(''customers'', [''unable to parse kafka schema type JSON''])],
      failures = [], filtered = [''_internal'']\<rparr>"
    by (simp add: scenario_a_run)
  from run have "outcome (get_workunits scenario_a_later demo_source) =
      outcome (get_workunits scenario_a demo_source)" by simp
  then have c: "outcome (get_workunits scenario_a_later demo_source) = Exhausted"
    by (simp add: scenario_a_run)
  from h1 h2 h3 h5 h6 h7 h8 a b c show ?thesis by blast
qed

section \<open>Closing the source\<close>

lemma close_Some:
  "consumer src = Some c \<Longrightarrow> close P src = Inr src' \<Longrightarrow>
   \<exists>c'. consumer_close P c = Inr c' \<and> src' = src\<lparr>consumer := Some c'\<rparr>"
  by (auto simp: close_def split: sum.splits)

text \<open>
  C5, as the code has it. \<open>close\<close> sets no flag in the source and the source has no
  error of its own for a closed state: after a \<open>close\<close> that returned, the source differs
  only in the state of its consumer, and \<open>get_workunits\<close> calls \<open>list_topics\<close> on that
  consumer as before. If the call raises, that exception of the client leaves the first
  pull, no work unit is yielded and the report is untouched; if it returns topics, the loop
  runs over them.
\<close>

theorem closed_source_asks_the_consumer:
  assumes "consumer src = Some c"
    and "close P src = Inr src'"
  shows "\<exists>c'. consumer_close P c = Inr c' \<and> src' = src\<lparr>consumer := Some c'\<rparr> \<and>
           (\<forall>e. list_topics P c' = Inl e \<longrightarrow>
              get_workunits P src' = \<lparr>yielded = [], report_after = report src, outcome = Raised e\<rparr>) \<and>
           (\<forall>ts. list_topics P c' = Inr ts \<longrightarrow>
              get_workunits P src' = for_topics P (source_config src) ts (report src))"
proof -
  from close_Some[OF assms] obtain c' where
    c: "consumer_close P c = Inr c'" and s: "src' = src\<lparr>consumer := Some c'\<rparr>" by blast
  have a: "\<forall>e. list_topics P c' = Inl e \<longrightarrow>
              get_workunits P src' = \<lparr>yielded = [], report_after = report src, outcome = Raised e\<rparr>"
    by (simp add: s get_workunits_def)
  have b: "\<forall>ts. list_topics P c' = Inr ts \<longrightarrow>
              get_workunits P src' = for_topics P (source_config src) ts (report src)"
    by (simp add: s get_workunits_def)
  from c s a b show ?thesis by blast
qed

theorem closed_source_asks_the_consumer_witness:
  "consumer demo_source = Some False \<and>
   close scenario_a demo_source = Inr closed_source \<and>
   list_topics scenario_a True = Inl (Exn ''RuntimeError'' ''Consumer closed'') \<and>
   get_workunits scenario_a closed_source =
     \<lparr>yielded = [], report_after = report demo_source,
      outcome = Raised (Exn ''RuntimeError'' ''Consumer closed'')\<rparr>"
proof -
  have h1: "consumer demo_source = Some False" by (simp add: demo_source_def)
  have h2: "close scenario_a demo_source = Inr closed_source" by (rule close_demo_source)
  have h3: "list_topics scenario_a True = Inl (Exn ''RuntimeError'' ''Consumer closed'')"
    by (simp add: scenario_a_def kafka_platform_def)
  have h4: "consumer_close scenario_a False = Inr True"
    by (simp add: scenario_a_def kafka_platform_def)
  from closed_source_asks_the_consumer[OF h1 h2] obtain c' where
    c: "consumer_close scenario_a False = Inr c'"
    and r: "\<forall>e. list_topics scenario_a c' = Inl e \<longrightarrow>
       get_workunits scenario_a closed_source =
         \<lparr>yielded = [], report_after = report demo_source, outcome = Raised e\<rparr>"
    by blast
  from c h4 have "c' = True" by simp
  with r h3 have "get_workunits scenario_a closed_source =
     \<lparr>yielded = [], report_after = report demo_source,
      outcome = Raised (Exn ''RuntimeError'' ''Consumer closed'')\<rparr>" by blast
  with h1 h2 h3 show ?thesis by blast
qed

theorem source_closed_counterexample:
  "close scenario_a demo_source = Inr closed_source \<and>
   outcome (get_workunits scenario_a closed_source) = Raised (Exn ''RuntimeError'' ''Consumer closed'') \<and>
   exn_class (Exn ''RuntimeError'' ''Consumer closed'') \<noteq> ''SourceClosed''"
  by (simp add: close_demo_source)
    (simp add: get_workunits_def closed_source_def demo_source_def scenario_a_def kafka_platform_def)

text \<open>
  C6, as the code has it. \<open>close\<close> does nothing when the consumer attribute is
  \<open>None\<close>. Otherwise it calls the consumer's own \<open>close\<close>, on every call: the attribute
  is not reset, so a second \<open>close\<close> of the source is a second \<open>close\<close> of the consumer
  and returns or raises as that does. Where the consumer's \<open>close\<close> is idempotent, so is
  the source's. A consumer constructor that raises makes \<open>__init__\<close> raise, and a source
  that \<open>__init__\<close> returned has a consumer.
\<close>

theorem close_is_the_consumers_close:
  "(consumer src = None \<longrightarrow> close P src = Inr src) \<and>
   (\<forall>c c'. consumer src = Some c \<and> consumer_close P c = Inr c' \<longrightarrow>
      close P src = Inr (src\<lparr>consumer := Some c'\<rparr>) \<and>
      close P (src\<lparr>consumer := Some c'\<rparr>) =
        (case consumer_close P c' of
           Inl e \<Rightarrow> Inl e
         | Inr c'' \<Rightarrow> Inr (src\<lparr>consumer := Some c''\<rparr>))) \<and>
   (\<forall>c e. consumer src = Some c \<and> consumer_close P c = Inl e \<longrightarrow> close P src = Inl e) \<and>
   ((\<forall>c c'. consumer_close P c = Inr c' \<longrightarrow> consumer_close P c' = Inr c') \<longrightarrow>
      (\<forall>s'. close P src = Inr s' \<longrightarrow> close P s' = Inr s')) \<and>
   (\<forall>cfg e. new_consumer P cfg = Inl e \<longrightarrow> init P cfg = Inl e) \<and>
   (\<forall>cfg s. init P cfg = Inr s \<longrightarrow> consumer s \<noteq> None)"
proof (intro conjI allI impI)
  assume "consumer src = None"
  then show "close P src = Inr src" by (simp add: close_def)
next
  fix c c' assume "consumer src = Some c \<and> consumer_close P c = Inr c'"
  then show "close P src = Inr (src\<lparr>consumer := Some c'\<rparr>)" by (simp add: close_def)
next
  fix c c'
  show "close P (src\<lparr>consumer := Some c'\<rparr>) =
        (case consumer_close P c' of
           Inl e \<Rightarrow> Inl e
         | Inr c'' \<Rightarrow> Inr (src\<lparr>consumer := Some c''\<rparr>))"
    by (simp add: close_def split: sum.splits)
next
  fix c e assume "consumer src = Some c \<and> consumer_close P c = Inl e"
  then show "close P src = Inl e" by (simp add: close_def)
next
  fix s'
  assume idem: "\<forall>c c'. consumer_close P c = Inr c' \<longrightarrow> consumer_close P c' = Inr c'"
    and cl: "close P src = Inr s'"
  show "close P s' = Inr s'"
  proof (cases "consumer src")
    case None
    with cl show ?thesis by (simp add: close_def)
  next
    case (Some c)
    from close_Some[OF Some cl] obtain c' where
      c: "consumer_close P c = Inr c'" and s: "s' = src\<lparr>consumer := Some c'\<rparr>" by blast
    from idem c have "consumer_close P c' = Inr c'" by blast
    with s show ?thesis by (simp add: close_def)
  qed
next
  fix cfg e assume "new_consumer P cfg = Inl e"
  then show "init P cfg = Inl e" by (simp add: init_def)
next
  fix cfg s assume "init P cfg = Inr s"
  then show "consumer s \<noteq> None" by (auto simp: init_def split: sum.splits)
qed

theorem close_is_the_consumers_close_witness:
  "consumer_close lenient_close False = Inr True \<and>
   consumer_close lenient_close True = Inr True \<and>
   close lenient_close demo_source = Inr closed_source \<and>
   close lenient_close closed_source = Inr closed_source \<and>
   consumer (demo_source\<lparr>consumer := None\<rparr>) = None \<and>
   close lenient_close (demo_source\<lparr>consumer := None\<rparr>) = Inr (demo_source\<lparr>consumer := None\<rparr>)"
proof -
  have idem: "\<forall>c c'. consumer_close lenient_close c = Inr c' \<longrightarrow> consumer_close lenient_close c' = Inr c'"
    by (simp add: lenient_close_def)
  have c1: "close lenient_close demo_source = Inr closed_source"
    by (simp add: close_def closed_source_def demo_source_def lenient_close_def)
  from close_is_the_consumers_close[of demo_source lenient_close] idem c1
  have c2: "close lenient_close closed_source = Inr closed_source" by blast
  have n: "consumer (demo_source\<lparr>consumer := None\<rparr>) = None" by simp
  from close_is_the_consumers_close[of "demo_source\<lparr>consumer := None\<rparr>" lenient_close] n
  have c3: "close lenient_close (demo_source\<lparr>consumer := None\<rparr>) = Inr (demo_source\<lparr>consumer := None\<rparr>)"
    by blast
  have cc: "consumer_close lenient_close False = Inr True"
    "consumer_close lenient_close True = Inr True"
    by (simp_all add: lenient_close_def)
  from cc c1 c2 n c3 show ?thesis by blast
qed

theorem close_twice_counterexample:
  "close scenario_a demo_source = Inr closed_source \<and>
   close scenario_a closed_source = Inl (Exn ''RuntimeError'' ''Consumer already closed'')"
  by (simp add: close_demo_source)
    (simp add: close_def closed_source_def demo_source_def scenario_a_def kafka_platform_def)

end
